theory Spec2Isabelle
  imports Complex_Main "HOL-Library.Sublist" "HOL-Library.AList"
begin

section \<open>The JavaScript values the import pipeline works on\<close>

text \<open>
  The rows handed to \<open>mapHeaders\<close> and \<open>processData\<close> come from the CSV and
  spreadsheet parsers: plain objects whose values are strings, numbers, booleans, arrays
  of these, or missing. A string is a list of code units below 256 (the Latin-1 range);
  white space and case mapping follow ECMAScript on that range. A finite number is kept as
  the exact rational it denotes; rounding to IEEE doubles is outside the model.
\<close>

datatype jsnum = NaN | PosInf | NegInf | Fin rat

datatype jsval =
    JUndefined
  | JNull
  | JBool bool
  | JNum jsnum
  | JStr string
  | JArr "jsval list"

text \<open>An object: its own enumerable properties, in the order \<open>Object.keys\<close> lists them.\<close>

type_synonym row = "(string \<times> jsval) list"

subsection \<open>String primitives\<close>

definition isWhiteSpace :: "char \<Rightarrow> bool" where
  "isWhiteSpace c = (of_char c \<in> {9, 10, 11, 12, 13, 32, 160 :: nat})"

definition lowerChar :: "char \<Rightarrow> char" where
  "lowerChar c =
     (let n = (of_char c :: nat)
      in if (65 \<le> n \<and> n \<le> 90) \<or> (192 \<le> n \<and> n \<le> 222 \<and> n \<noteq> 215)
         then char_of (n + 32) else c)"

definition toLowerCase :: "string \<Rightarrow> string" where
  "toLowerCase s = map lowerChar s"

definition trimStart :: "string \<Rightarrow> string" where
  "trimStart s = dropWhile isWhiteSpace s"

definition trim :: "string \<Rightarrow> string" where
  "trim s = rev (dropWhile isWhiteSpace (rev (dropWhile isWhiteSpace s)))"

text \<open>\<open>s.replace(/\s+/g, '')\<close>: every white space character is removed.\<close>

definition stripWhiteSpace :: "string \<Rightarrow> string" where
  "stripWhiteSpace s = filter (\<lambda>c. \<not> isWhiteSpace c) s"

text \<open>\<open>s.includes(t)\<close>: some suffix of \<open>s\<close> starts with \<open>t\<close>.\<close>

fun str_includes :: "string \<Rightarrow> string \<Rightarrow> bool" where
  "str_includes [] t = (t = [])"
| "str_includes (x # xs) t = (prefix t (x # xs) \<or> str_includes xs t)"

text \<open>\<open>s.split(',')\<close> for a one-character separator: never empty, \<open>''''\<close> gives \<open>['''']\<close>.\<close>

fun split_on :: "char \<Rightarrow> string \<Rightarrow> string list" where
  "split_on sep [] = [[]]"
| "split_on sep (x # xs) =
     (if x = sep then [] # split_on sep xs
      else (case split_on sep xs of
              [] \<Rightarrow> [[x]]
            | p # ps \<Rightarrow> (x # p) # ps))"

fun join :: "string \<Rightarrow> string list \<Rightarrow> string" where
  "join sep [] = []"
| "join sep [x] = x"
| "join sep (x # y # ys) = x @ sep @ join sep (y # ys)"

subsection \<open>Numbers and strings\<close>

definition digitChar :: "nat \<Rightarrow> char" where
  "digitChar d = char_of (48 + d)"

fun natDigits :: "nat \<Rightarrow> string" where
  "natDigits n =
     (if n < 10 then [digitChar n] else natDigits (n div 10) @ [digitChar (n mod 10)])"

definition isDigit :: "char \<Rightarrow> bool" where
  "isDigit c = (48 \<le> (of_char c :: nat) \<and> (of_char c :: nat) \<le> 57)"

definition isHexDigit :: "char \<Rightarrow> bool" where
  "isHexDigit c =
     (let n = (of_char c :: nat)
      in (48 \<le> n \<and> n \<le> 57) \<or> (65 \<le> n \<and> n \<le> 70) \<or> (97 \<le> n \<and> n \<le> 102))"

definition digitVal :: "char \<Rightarrow> nat" where
  "digitVal c =
     (let n = (of_char c :: nat)
      in if n \<le> 57 then n - 48 else if n \<le> 70 then n - 55 else n - 87)"

definition digitsVal :: "nat \<Rightarrow> string \<Rightarrow> nat" where
  "digitsVal radix ds = foldl (\<lambda>acc c. acc * radix + digitVal c) 0 ds"

text \<open>The sign that \<open>parseInt\<close> and \<open>parseFloat\<close> read in front of the digits.\<close>

fun readSign :: "string \<Rightarrow> bool \<times> string" where
  "readSign [] = (False, [])"
| "readSign (c # cs) =
     (if c = CHR ''-'' then (True, cs)
      else if c = CHR ''+'' then (False, cs)
      else (False, c # cs))"

definition signed :: "bool \<Rightarrow> nat \<Rightarrow> rat" where
  "signed neg n = (if neg then - of_nat n else of_nat n)"

text \<open>
  \<open>parseInt(s)\<close> with no radix: leading white space is skipped, a sign is read, the
  prefix \<open>0x\<close> or \<open>0X\<close> selects radix 16, and the longest run of digits is the value;
  no digit at all gives \<open>NaN\<close>.
\<close>

definition parseIntStr :: "string \<Rightarrow> jsnum" where
  "parseIntStr s =
     (let (neg, u) = readSign (trimStart s);
          hex = (prefix ''0x'' u \<or> prefix ''0X'' u);
          body = (if hex then drop 2 u else u);
          z = (if hex then takeWhile isHexDigit body else takeWhile isDigit body)
      in if z = [] then NaN
         else Fin (signed neg (digitsVal (if hex then 16 else 10) z)))"

definition scale10 :: "rat \<Rightarrow> int \<Rightarrow> rat" where
  "scale10 x k = (if 0 \<le> k then x * 10 ^ nat k else x / 10 ^ nat (- k))"

text \<open>The exponent part of a decimal literal; an incomplete one is not read.\<close>

fun readExponent :: "string \<Rightarrow> int" where
  "readExponent [] = 0"
| "readExponent (c # cs) =
     (if c = CHR ''e'' \<or> c = CHR ''E'' then
        (let (neg, r) = readSign cs; ed = takeWhile isDigit r
         in if ed = [] then 0
            else if neg then - int (digitsVal 10 ed) else int (digitsVal 10 ed))
      else 0)"

text \<open>
  \<open>parseFloat(s)\<close>: the longest prefix of the trimmed string that is a decimal literal
  (\<open>Infinity\<close>, or digits with an optional fraction and exponent); none gives \<open>NaN\<close>.
\<close>

definition parseFloatStr :: "string \<Rightarrow> jsnum" where
  "parseFloatStr s =
     (let (neg, u) = readSign (trimStart s)
      in if prefix ''Infinity'' u then (if neg then NegInf else PosInf)
         else
           (let ip = takeWhile isDigit u;
                r1 = dropWhile isDigit u;
                hasDot = (r1 \<noteq> [] \<and> hd r1 = CHR ''.'');
                fp = (if hasDot then takeWhile isDigit (tl r1) else []);
                r2 = (if hasDot then dropWhile isDigit (tl r1) else r1)
            in if ip = [] \<and> fp = [] then NaN
               else Fin (scale10 (signed neg (digitsVal 10 (ip @ fp)))
                           (readExponent r2 - int (length fp)))))"

text \<open>
  \<open>Number::toString\<close>, radix 10, of a positive number: with \<open>k\<close> significant digits
  \<open>ds\<close> and the decimal point after the \<open>n\<close>-th of them, the four layouts of the
  standard.
\<close>

definition layoutDigits :: "string \<Rightarrow> int \<Rightarrow> string" where
  "layoutDigits ds n =
     (let k = int (length ds)
      in if k \<le> n \<and> n \<le> 21 then ds @ replicate (nat (n - k)) CHR ''0''
         else if 0 < n \<and> n \<le> 21 then take (nat n) ds @ ''.'' @ drop (nat n) ds
         else if - 6 < n \<and> n \<le> 0 then ''0.'' @ replicate (nat (- n)) CHR ''0'' @ ds
         else (if k = 1 then ds else [hd ds] @ ''.'' @ tl ds)
              @ ''e'' @ (if 0 \<le> n - 1 then ''+'' else ''-'') @ natDigits (nat \<bar>n - 1\<bar>))"

text \<open>
  The digits of a positive rational with a finite decimal expansion: \<open>j\<close> is the number
  of fraction digits, the least one with \<open>q dvd 10 ^ j\<close> (it is below four times the
  number of digits of \<open>q\<close>).
\<close>

definition posToString :: "rat \<Rightarrow> string" where
  "posToString x =
     (let (p, q) = quotient_of x;
          j = length (takeWhile (\<lambda>i. \<not> q dvd 10 ^ i)
                        [0 ..< 4 * length (natDigits (nat q))]);
          all = natDigits (nat (p * 10 ^ j div q));
          ds = rev (dropWhile (\<lambda>c. c = CHR ''0'') (rev all))
      in layoutDigits ds (int (length all) - int j))"

definition numToString :: "jsnum \<Rightarrow> string" where
  "numToString n =
     (case n of
        NaN \<Rightarrow> ''NaN''
      | PosInf \<Rightarrow> ''Infinity''
      | NegInf \<Rightarrow> ''-Infinity''
      | Fin x \<Rightarrow>
          (if x = 0 then ''0''
           else if x < 0 then ''-'' @ posToString (- x)
           else posToString x))"

subsection \<open>Conversions and operators on values\<close>

text \<open>\<open>String(v)\<close>; inside an array, \<open>undefined\<close> and \<open>null\<close> print as nothing.\<close>

fun js_String :: "jsval \<Rightarrow> string" where
  "js_String JUndefined = ''undefined''"
| "js_String JNull = ''null''"
| "js_String (JBool b) = (if b then ''true'' else ''false'')"
| "js_String (JNum n) = numToString n"
| "js_String (JStr s) = s"
| "js_String (JArr vs) =
     join '','' (map (\<lambda>v. if v = JUndefined \<or> v = JNull then [] else js_String v) vs)"

definition parseInt :: "jsval \<Rightarrow> jsnum" where
  "parseInt v = parseIntStr (js_String v)"

definition parseFloat :: "jsval \<Rightarrow> jsnum" where
  "parseFloat v = parseFloatStr (js_String v)"

fun truthy :: "jsval \<Rightarrow> bool" where
  "truthy JUndefined = False"
| "truthy JNull = False"
| "truthy (JBool b) = b"
| "truthy (JNum n) = (n \<noteq> NaN \<and> n \<noteq> Fin 0)"
| "truthy (JStr s) = (s \<noteq> [])"
| "truthy (JArr vs) = True"

text \<open>\<open>a || b\<close>\<close>

definition js_or :: "jsval \<Rightarrow> jsval \<Rightarrow> jsval" where
  "js_or a b = (if truthy a then a else b)"

fun js_typeof :: "jsval \<Rightarrow> string" where
  "js_typeof JUndefined = ''undefined''"
| "js_typeof JNull = ''object''"
| "js_typeof (JBool b) = ''boolean''"
| "js_typeof (JNum n) = ''number''"
| "js_typeof (JStr s) = ''string''"
| "js_typeof (JArr vs) = ''object''"

text \<open>\<open>row[k]\<close> on a row object: the own property, or \<open>undefined\<close>.\<close>

definition js_get :: "row \<Rightarrow> string \<Rightarrow> jsval" where
  "js_get r k = (case map_of r k of None \<Rightarrow> JUndefined | Some v \<Rightarrow> v)"

section \<open>Header Normalizer: \<open>mapHeaders\<close>\<close>

datatype entityType = Clients | Workers | Tasks

definition entityName :: "entityType \<Rightarrow> string" where
  "entityName e = (case e of Clients \<Rightarrow> ''clients'' | Workers \<Rightarrow> ''workers'' | Tasks \<Rightarrow> ''tasks'')"

text \<open>The table \<open>headerMappings\<close>, label first, in declaration order.\<close>

definition headerMappings :: "entityType \<Rightarrow> (string \<times> string) list" where
  "headerMappings e =
     (case e of
        Clients \<Rightarrow>
          [(''Client ID'', ''ClientID''),
           (''Client Name'', ''ClientName''),
           (''Client Group'', ''ClientGroup''),
           (''Priority Level'', ''PriorityLevel''),
           (''Requested Task IDs'', ''RequestedTaskIDs''),
           (''Preferred Phases'', ''PreferredPhases''),
           (''Max Budget'', ''MaxBudget''),
           (''Attributes JSON'', ''AttributesJSON'')]
      | Workers \<Rightarrow>
          [(''Worker ID'', ''WorkerID''),
           (''Worker Name'', ''WorkerName''),
           (''Worker Group'', ''WorkerGroup''),
           (''Skills'', ''Skills''),
           (''Available Slots'', ''AvailableSlots''),
           (''Max Load Per Phase'', ''MaxLoadPerPhase''),
           (''Hourly Rate'', ''HourlyRate''),
           (''Attributes JSON'', ''AttributesJSON'')]
      | Tasks \<Rightarrow>
          [(''Task ID'', ''TaskID''),
           (''Task Name'', ''TaskName''),
           (''Duration'', ''Duration''),
           (''Required Skills'', ''RequiredSkills''),
           (''Preferred Phases'', ''PreferredPhases''),
           (''Priority Level'', ''PriorityLevel''),
           (''Dependencies'', ''Dependencies''),
           (''Max Concurrent'', ''MaxConcurrent''),
           (''Attributes JSON'', ''AttributesJSON'')])"

text \<open>
  The test of the inner loop: the trimmed, lower-cased header against the lower-cased
  label with its white space removed.
\<close>

definition labelMatches :: "string \<Rightarrow> string \<Rightarrow> bool" where
  "labelMatches normalizedHeader mappedHeader =
     str_includes normalizedHeader (stripWhiteSpace (toLowerCase mappedHeader))"

text \<open>The inner \<open>for\<close> loop with its \<open>break\<close>: the first entry whose label matches.\<close>

fun findTarget :: "string \<Rightarrow> (string \<times> string) list \<Rightarrow> string option" where
  "findTarget normalizedHeader [] = None"
| "findTarget normalizedHeader ((mappedHeader, targetField) # rest) =
     (if labelMatches normalizedHeader mappedHeader then Some targetField
      else findTarget normalizedHeader rest)"

text \<open>
  \<open>headerMapping\<close> is an object literal, so reading a key that it does not own falls
  through to \<open>Object.prototype\<close>. The members are listed with the string each one
  becomes when it is used as a property key.
\<close>

definition objectPrototype :: "(string \<times> string) list" where
  "objectPrototype =
     [(''constructor'', ''function Object() { [native code] }''),
      (''__defineGetter__'', ''function __defineGetter__() { [native code] }''),
      (''__defineSetter__'', ''function __defineSetter__() { [native code] }''),
      (''hasOwnProperty'', ''function hasOwnProperty() { [native code] }''),
      (''__lookupGetter__'', ''function __lookupGetter__() { [native code] }''),
      (''__lookupSetter__'', ''function __lookupSetter__() { [native code] }''),
      (''isPrototypeOf'', ''function isPrototypeOf() { [native code] }''),
      (''propertyIsEnumerable'', ''function propertyIsEnumerable() { [native code] }''),
      (''toString'', ''function toString() { [native code] }''),
      (''valueOf'', ''function valueOf() { [native code] }''),
      (''__proto__'', ''[object Object]''),
      (''toLocaleString'', ''function toLocaleString() { [native code] }'')]"

datatype lookup = Own string | Inherited string | Missing

definition readMapping :: "(string \<times> string) list \<Rightarrow> string \<Rightarrow> lookup" where
  "readMapping headerMapping k =
     (case map_of headerMapping k of
        Some v \<Rightarrow> Own v
      | None \<Rightarrow> (case map_of objectPrototype k of Some s \<Rightarrow> Inherited s | None \<Rightarrow> Missing))"

fun propTruthy :: "lookup \<Rightarrow> bool" where
  "propTruthy (Own v) = (v \<noteq> [])"
| "propTruthy (Inherited s) = True"
| "propTruthy Missing = False"

fun propKey :: "lookup \<Rightarrow> string" where
  "propKey (Own v) = v"
| "propKey (Inherited s) = s"
| "propKey Missing = ''undefined''"

text \<open>
  One round of the \<open>forEach\<close> over the keys of the first row. Neither assignment is
  ever reached with the key \<open>__proto__\<close> (no label is contained in it, and reading it is
  truthy), so both are plain property writes.
\<close>

definition mapHeader ::
  "entityType \<Rightarrow> (string \<times> string) list \<Rightarrow> string \<Rightarrow> (string \<times> string) list" where
  "mapHeader entity headerMapping originalHeader =
     (let normalizedHeader = toLowerCase (trim originalHeader);
          found = (case findTarget normalizedHeader (headerMappings entity) of
                     Some targetField \<Rightarrow> AList.update originalHeader targetField headerMapping
                   | None \<Rightarrow> headerMapping)
      in if \<not> propTruthy (readMapping found originalHeader)
         then AList.update originalHeader originalHeader found
         else found)"

definition buildHeaderMapping :: "entityType \<Rightarrow> row \<Rightarrow> (string \<times> string) list" where
  "buildHeaderMapping entity firstRow = foldl (mapHeader entity) [] (map fst firstRow)"

text \<open>The second pass: each row rebuilt under the mapped keys.\<close>

definition transformRow :: "(string \<times> string) list \<Rightarrow> row \<Rightarrow> row" where
  "transformRow headerMapping r =
     foldl (\<lambda>transformedRow key.
              (let newKey = readMapping headerMapping key
               in if propTruthy newKey
                  then AList.update (propKey newKey) (js_get r key) transformedRow
                  else transformedRow))
       [] (map fst r)"

definition mapHeaders :: "row list \<Rightarrow> entityType \<Rightarrow> row list" where
  "mapHeaders rawData entity =
     (if length rawData = 0 then rawData
      else map (transformRow (buildHeaderMapping entity (hd rawData))) rawData)"

section \<open>Record Coercer: \<open>processData\<close>\<close>

text \<open>
  A method call on a value of type \<open>any\<close> can throw. \<open>v.split(',')\<close> exists on strings
  only; on anything else the call is a \<open>TypeError\<close>.
\<close>

datatype js_error = TypeError string

definition bindE :: "js_error + 'a \<Rightarrow> ('a \<Rightarrow> js_error + 'b) \<Rightarrow> js_error + 'b" where
  "bindE m f = (case m of Inl e \<Rightarrow> Inl e | Inr x \<Rightarrow> f x)"

fun js_split :: "jsval \<Rightarrow> js_error + string list" where
  "js_split (JStr s) = Inr (split_on CHR '','' s)"
| "js_split v = Inl (TypeError ''split is not a function'')"

text \<open>\<open>typeof v === 'string' ? v.split(',').map(x => x.trim()) : v || []\<close>\<close>

definition coerceStrings :: "jsval \<Rightarrow> js_error + jsval" where
  "coerceStrings v =
     (if js_typeof v = ''string''
      then bindE (js_split v) (\<lambda>pieces. Inr (JArr (map (\<lambda>x. JStr (trim x)) pieces)))
      else Inr (js_or v (JArr [])))"

text \<open>\<open>typeof v === 'string' ? v.split(',').map(x => parseInt(x.trim())) : v || []\<close>\<close>

definition coerceInts :: "jsval \<Rightarrow> js_error + jsval" where
  "coerceInts v =
     (if js_typeof v = ''string''
      then bindE (js_split v)
             (\<lambda>pieces. Inr (JArr (map (\<lambda>x. JNum (parseInt (JStr (trim x)))) pieces)))
      else Inr (js_or v (JArr [])))"

text \<open>\<open>parseInt(v) || d\<close> and \<open>parseFloat(v) || d\<close>\<close>

definition intOr :: "jsval \<Rightarrow> rat \<Rightarrow> jsval" where
  "intOr v d = js_or (JNum (parseInt v)) (JNum (Fin d))"

definition floatOr :: "jsval \<Rightarrow> rat \<Rightarrow> jsval" where
  "floatOr v d = js_or (JNum (parseFloat v)) (JNum (Fin d))"

text \<open>The key of the identity lookup, \<open>`${entityType.slice(0, -1)}ID`\<close>.\<close>

definition idKey :: "entityType \<Rightarrow> string" where
  "idKey entity = butlast (entityName entity) @ ''ID''"

text \<open>\<open>{ ...row, id: row[idKey] || `temp-${index}` }\<close>\<close>

definition withId :: "entityType \<Rightarrow> row \<Rightarrow> nat \<Rightarrow> row" where
  "withId entity r index =
     AList.update ''id'' (js_or (js_get r (idKey entity)) (JStr (''temp-'' @ natDigits index))) r"

text \<open>The callback of \<open>rawData.map\<close>: one row and its index.\<close>

fun processRow :: "entityType \<Rightarrow> row \<Rightarrow> nat \<Rightarrow> js_error + row" where
  "processRow Clients r index =
     bindE (coerceStrings (js_get r ''RequestedTaskIDs'')) (\<lambda>requested.
     bindE (coerceInts (js_get r ''PreferredPhases'')) (\<lambda>phases.
     Inr (AList.update ''MaxBudget'' (floatOr (js_get r ''MaxBudget'') 0)
         (AList.update ''PriorityLevel'' (intOr (js_get r ''PriorityLevel'') 1)
         (AList.update ''PreferredPhases'' phases
         (AList.update ''RequestedTaskIDs'' requested
         (withId Clients r index)))))))"
| "processRow Workers r index =
     bindE (coerceStrings (js_get r ''Skills'')) (\<lambda>skills.
     bindE (coerceInts (js_get r ''AvailableSlots'')) (\<lambda>slots.
     Inr (AList.update ''HourlyRate'' (floatOr (js_get r ''HourlyRate'') 0)
         (AList.update ''MaxLoadPerPhase'' (intOr (js_get r ''MaxLoadPerPhase'') 1)
         (AList.update ''AvailableSlots'' slots
         (AList.update ''Skills'' skills
         (withId Workers r index)))))))"
| "processRow Tasks r index =
     bindE (coerceStrings (js_get r ''RequiredSkills'')) (\<lambda>skills.
     bindE (coerceInts (js_get r ''PreferredPhases'')) (\<lambda>phases.
     bindE (coerceStrings (js_get r ''Dependencies'')) (\<lambda>deps.
     Inr (AList.update ''MaxConcurrent'' (intOr (js_get r ''MaxConcurrent'') 1)
         (AList.update ''PriorityLevel'' (intOr (js_get r ''PriorityLevel'') 1)
         (AList.update ''Duration'' (intOr (js_get r ''Duration'') 1)
         (AList.update ''Dependencies'' deps
         (AList.update ''PreferredPhases'' phases
         (AList.update ''RequiredSkills'' skills
         (withId Tasks r index))))))))))"

fun processRows :: "entityType \<Rightarrow> nat \<Rightarrow> row list \<Rightarrow> js_error + row list" where
  "processRows entity index [] = Inr []"
| "processRows entity index (r # rs) =
     bindE (processRow entity r index) (\<lambda>processedRow.
     bindE (processRows entity (Suc index) rs) (\<lambda>others.
     Inr (processedRow # others)))"

definition processData :: "row list \<Rightarrow> entityType \<Rightarrow> js_error + row list" where
  "processData rawData entity = processRows entity 0 rawData"

section \<open>Import Orchestrator: \<open>parseFile\<close> and \<open>handleUpload\<close>\<close>

text \<open>
  A \<open>File\<close> is known by its name and its MIME type. What a promise is rejected with is
  either an \<open>Error\<close> object with its message, or some other value. A promise that is
  never settled is \<open>Pending\<close>.
\<close>

record jsFile =
  name :: string
  ftype :: string

datatype reason = ErrorObject string | OtherValue

datatype 'a promise = Resolved 'a | Rejected reason | Pending

text \<open>
  The two parsing libraries are collaborators: \<open>Papa.parse\<close> completes with its list of
  error messages and its rows, or calls the error callback; the spreadsheet reader
  delivers rows, throws inside \<open>onload\<close>, or never loads.
\<close>

datatype papaOutcome = PapaComplete "string list" "row list" | PapaError reason

datatype xlsxOutcome = XlsxRows "row list" | XlsxThrows reason | XlsxNoLoad

definition parseFile ::
  "(jsFile \<Rightarrow> papaOutcome) \<Rightarrow> (jsFile \<Rightarrow> xlsxOutcome) \<Rightarrow> jsFile \<Rightarrow> row list promise" where
  "parseFile papa xlsx f =
     (if ftype f = ''text/csv'' \<or> suffix ''.csv'' (name f) then
        (case papa f of
           PapaComplete errs rows \<Rightarrow>
             (if length errs > 0
              then Rejected (ErrorObject (''CSV parsing errors: '' @ join '', '' errs))
              else Resolved rows)
         | PapaError e \<Rightarrow> Rejected e)
      else if suffix ''.xlsx'' (name f) then
        (case xlsx f of
           XlsxRows rows \<Rightarrow> Resolved rows
         | XlsxThrows e \<Rightarrow> Rejected e
         | XlsxNoLoad \<Rightarrow> Pending)
      else Rejected (ErrorObject ''Unsupported file type''))"

text \<open>
  \<open>Promise.all\<close> of three promises. Which rejection arrives first is a matter of timing;
  the model takes the first one in the order of the array.
\<close>

definition promiseAll ::
  "'a promise \<Rightarrow> 'a promise \<Rightarrow> 'a promise \<Rightarrow> ('a \<times> 'a \<times> 'a) promise" where
  "promiseAll p1 p2 p3 =
     (case p1 of Rejected e \<Rightarrow> Rejected e | _ \<Rightarrow>
     (case p2 of Rejected e \<Rightarrow> Rejected e | _ \<Rightarrow>
     (case p3 of Rejected e \<Rightarrow> Rejected e | _ \<Rightarrow>
     (case (p1, p2, p3) of
        (Resolved a, Resolved b, Resolved c) \<Rightarrow> Resolved (a, b, c)
      | _ \<Rightarrow> Pending))))"

record FileUploadState =
  clients :: "jsFile option"
  workers :: "jsFile option"
  tasks :: "jsFile option"

record EntityData =
  clientRecords :: "row list"
  workerRecords :: "row list"
  taskRecords :: "row list"

record FileUploadResult =
  success :: bool
  data :: "EntityData option"
  errors :: "string list option"
  warnings :: "string list option"

datatype uploadStatus = Idle | Uploading | UploadSuccess | UploadError

text \<open>
  The state of the component: the three chosen files, the status, the last result, the
  files handed to \<open>parseFile\<close> so far, and what \<open>onDataUpload\<close> has been called with.
\<close>

record component =
  files :: FileUploadState
  status :: uploadStatus
  uploadResult :: "FileUploadResult option"
  parseCalls :: "jsFile list"
  published :: "EntityData list"

definition messageOf :: "reason \<Rightarrow> string" where
  "messageOf e = (case e of ErrorObject m \<Rightarrow> m | OtherValue \<Rightarrow> ''Unknown error occurred'')"

definition failWith :: "string \<Rightarrow> component \<Rightarrow> component" where
  "failWith msg st =
     st\<lparr>uploadResult :=
          Some \<lparr>success = False, data = None, errors = Some [msg], warnings = None\<rparr>,
        status := UploadError\<rparr>"

text \<open>The body of the \<open>try\<close> after the three parses have resolved.\<close>

definition normalizeAndCoerce ::
  "row list \<Rightarrow> row list \<Rightarrow> row list \<Rightarrow> js_error + EntityData" where
  "normalizeAndCoerce clientsRaw workersRaw tasksRaw =
     bindE (processData (mapHeaders clientsRaw Clients) Clients) (\<lambda>cs.
     bindE (processData (mapHeaders workersRaw Workers) Workers) (\<lambda>ws.
     bindE (processData (mapHeaders tasksRaw Tasks) Tasks) (\<lambda>ts.
     Inr \<lparr>clientRecords = cs, workerRecords = ws, taskRecords = ts\<rparr>)))"

definition handleUpload ::
  "(jsFile \<Rightarrow> papaOutcome) \<Rightarrow> (jsFile \<Rightarrow> xlsxOutcome) \<Rightarrow> component \<Rightarrow> component" where
  "handleUpload papa xlsx st =
     (case (clients (files st), workers (files st), tasks (files st)) of
        (Some c, Some w, Some t) \<Rightarrow>
          (let st1 = st\<lparr>status := Uploading, parseCalls := parseCalls st @ [c, w, t]\<rparr>
           in case promiseAll (parseFile papa xlsx c) (parseFile papa xlsx w)
                     (parseFile papa xlsx t) of
                Resolved (clientsRaw, workersRaw, tasksRaw) \<Rightarrow>
                  (case normalizeAndCoerce clientsRaw workersRaw tasksRaw of
                     Inr d \<Rightarrow>
                       st1\<lparr>uploadResult :=
                             Some \<lparr>success = True, data = Some d, errors = None,
                                   warnings = Some []\<rparr>,
                           status := UploadSuccess,
                           published := published st1 @ [d]\<rparr>
                   | Inl (TypeError m) \<Rightarrow> failWith m st1)
              | Rejected e \<Rightarrow> failWith (messageOf e) st1
              | Pending \<Rightarrow> st1)
      | _ \<Rightarrow>
          failWith ''Please upload all three required files: clients, workers, and tasks'' st)"

section \<open>Query/Filter Facade: the filter of \<open>filteredAndSortedData\<close>\<close>

text \<open>
  \<open>currentData.filter(item => Object.values(item).some(value =>
  String(value).toLowerCase().includes(searchTerm.toLowerCase())))\<close>. The optional sort
  that follows reorders this list and neither adds nor removes a record.
\<close>

definition valueMatches :: "string \<Rightarrow> jsval \<Rightarrow> bool" where
  "valueMatches searchTerm v =
     str_includes (toLowerCase (js_String v)) (toLowerCase searchTerm)"

definition filtered :: "row list \<Rightarrow> string \<Rightarrow> row list" where
  "filtered currentData searchTerm =
     filter (\<lambda>item. list_ex (valueMatches searchTerm) (map snd item)) currentData"

text \<open>
  The header as the inner loop sees it; "the mapping sends the column \<open>k\<close> to the key
  \<open>t\<close>", which is what the second pass of \<open>mapHeaders\<close> acts on; and the keys of a
  row.
\<close>

abbreviation normalized :: "string \<Rightarrow> string" where
  "normalized h \<equiv> toLowerCase (trim h)"

abbreviation mapsTo :: "(string \<times> string) list \<Rightarrow> string \<Rightarrow> string \<Rightarrow> bool" where
  "mapsTo headerMapping k t \<equiv>
     (propTruthy (readMapping headerMapping k) \<and> propKey (readMapping headerMapping k) = t)"

abbreviation keysOf :: "row \<Rightarrow> string set" where
  "keysOf r \<equiv> fst ` set r"

text \<open>"Coercing row \<open>r\<close> at position \<open>i\<close> returns a record whose field \<open>f\<close> is \<open>v\<close>."\<close>

abbreviation coercesTo :: "entityType \<Rightarrow> row \<Rightarrow> nat \<Rightarrow> string \<Rightarrow> jsval \<Rightarrow> bool" where
  "coercesTo entity r i f v \<equiv> (\<exists>p. processRow entity r i = Inr p \<and> js_get p f = v)"

text \<open>The two shapes a list cell written as text is coerced to.\<close>

abbreviation trimmedPieces :: "string \<Rightarrow> jsval" where
  "trimmedPieces s \<equiv> JArr (map (\<lambda>x. JStr (trim x)) (split_on CHR '','' s))"

abbreviation parsedPieces :: "string \<Rightarrow> jsval" where
  "parsedPieces s \<equiv> JArr (map (\<lambda>x. JNum (parseInt (JStr (trim x)))) (split_on CHR '','' s))"

text \<open>
  The shapes of a field: an array; a number other than \<open>NaN\<close>; and a raw value that
  the coercer turns into an array, that is a string, an array or a falsy value.
\<close>

abbreviation isArray :: "jsval \<Rightarrow> bool" where
  "isArray v \<equiv> (\<exists>xs. v = JArr xs)"

abbreviation isNumber :: "jsval \<Rightarrow> bool" where
  "isNumber v \<equiv> (\<exists>x. v = JNum x \<and> x \<noteq> NaN)"

abbreviation listable :: "jsval \<Rightarrow> bool" where
  "listable v \<equiv> (js_typeof v = ''string'' \<or> isArray v \<or> \<not> truthy v)"

text \<open>Rows and component states for trying the definitions out.\<close>

abbreviation textListRow :: row where
  "textListRow \<equiv>
     [(''RequestedTaskIDs'', JStr ''1, 2''), (''PreferredPhases'', JStr ''1, 2''),
      (''Skills'', JStr ''1, 2''), (''AvailableSlots'', JStr ''1, 2''),
      (''RequiredSkills'', JStr ''1, 2''), (''Dependencies'', JStr ''1, 2'')]"

abbreviation arrayListRow :: row where
  "arrayListRow \<equiv>
     [(''RequestedTaskIDs'', JArr [JStr ''x'']), (''PreferredPhases'', JArr [JStr ''x'']),
      (''Skills'', JArr [JStr ''x'']), (''AvailableSlots'', JArr [JStr ''x'']),
      (''RequiredSkills'', JArr [JStr ''x'']), (''Dependencies'', JArr [JStr ''x''])]"

abbreviation csvFile :: "string \<Rightarrow> jsFile" where
  "csvFile n \<equiv> \<lparr>name = n, ftype = ''text/csv''\<rparr>"

abbreviation onePapaRow :: "jsFile \<Rightarrow> papaOutcome" where
  "onePapaRow \<equiv> (\<lambda>f. PapaComplete [] [[(''Notes'', JStr (name f))]])"

abbreviation noSheet :: "jsFile \<Rightarrow> xlsxOutcome" where
  "noSheet \<equiv> (\<lambda>f. XlsxNoLoad)"

abbreviation twoFilesChosen :: component where
  "twoFilesChosen \<equiv>
     \<lparr>files = \<lparr>clients = Some (csvFile ''c.csv''), workers = None,
               tasks = Some (csvFile ''t.csv'')\<rparr>,
      status = Idle, uploadResult = None, parseCalls = [], published = []\<rparr>"

abbreviation threeFilesChosen :: component where
  "threeFilesChosen \<equiv>
     \<lparr>files = \<lparr>clients = Some (csvFile ''c.csv''), workers = Some (csvFile ''w.csv''),
               tasks = Some (csvFile ''t.csv'')\<rparr>,
      status = Idle, uploadResult = None, parseCalls = [], published = []\<rparr>"

abbreviation twoClients :: "row list" where
  "twoClients \<equiv> [[(''ClientID'', JStr ''C1'')], [(''ClientID'', JStr ''C2'')]]"

abbreviation namedRow :: row where
  "namedRow \<equiv> [(''clientname'', JStr ''Acme''), (''Notes'', JStr ''n'')]"

abbreviation notedRow :: row where
  "notedRow \<equiv> [(''Notes'', JStr ''x''), (''ClientID'', JStr ''C1'')]"

text \<open>A row whose numeric cells are all unusable.\<close>

abbreviation malformedRow :: row where
  "malformedRow \<equiv>
     [(''PriorityLevel'', JStr ''abc''), (''MaxBudget'', JStr []),
      (''MaxLoadPerPhase'', JNull), (''HourlyRate'', JStr ''n/a''),
      (''Duration'', JStr []), (''MaxConcurrent'', JBool True)]"

text \<open>A row whose list cells are all the number 7, and three rows of unusable cells.\<close>

abbreviation numberListRow :: row where
  "numberListRow \<equiv>
     [(''RequestedTaskIDs'', JNum (Fin 7)), (''PreferredPhases'', JNum (Fin 7)),
      (''Skills'', JNum (Fin 7)), (''AvailableSlots'', JNum (Fin 7)),
      (''RequiredSkills'', JNum (Fin 7)), (''Dependencies'', JNum (Fin 7))]"

abbreviation unusableRows :: "row list" where
  "unusableRows \<equiv>
     [malformedRow, [],
      [(''RequiredSkills'', JNull), (''Dependencies'', JNum (Fin 7)),
       (''PreferredPhases'', JStr ''x,,y'')]]"

section \<open>Basic facts\<close>

declare processRow.simps [simp del]

declare natDigits.simps [simp del]

lemma lower_literals:
  "toLowerCase ''Acme'' = ''acme''" "toLowerCase ''Beta'' = ''beta''" "toLowerCase ''ac'' = ''ac''"
  by code_simp+

lemma natDigits_literals:
  "natDigits 0 = ''0''" "natDigits 1 = ''1''" "natDigits 2 = ''2''" "natDigits 10 = ''10''"
  by code_simp+

lemma js_get_update: "js_get (AList.update k v r) k' = (if k' = k then v else js_get r k')"
  by (simp add: js_get_def update_conv')

lemma js_get_Nil: "js_get [] k = JUndefined"
  by (simp add: js_get_def)

lemma js_get_Cons: "js_get ((k', v) # r) k = (if k = k' then v else js_get r k)"
  by (simp add: js_get_def)

lemma coerceStrings_eq:
  "coerceStrings v =
     Inr (case v of JStr s \<Rightarrow> JArr (map (\<lambda>x. JStr (trim x)) (split_on CHR '','' s))
          | _ \<Rightarrow> js_or v (JArr []))"
  by (cases v) (simp_all add: coerceStrings_def bindE_def)

lemma coerceInts_eq:
  "coerceInts v =
     Inr (case v of
            JStr s \<Rightarrow> JArr (map (\<lambda>x. JNum (parseInt (JStr (trim x)))) (split_on CHR '','' s))
          | _ \<Rightarrow> js_or v (JArr []))"
  by (cases v) (simp_all add: coerceInts_def bindE_def)

lemma intOr_eq:
  "intOr v d =
     (if parseInt v = NaN \<or> parseInt v = Fin 0 then JNum (Fin d) else JNum (parseInt v))"
  by (simp add: intOr_def js_or_def)

lemma intOr_NaN: "parseInt v = NaN \<Longrightarrow> intOr v d = JNum (Fin d)"
  by (simp add: intOr_eq)

lemma floatOr_NaN: "parseFloat v = NaN \<Longrightarrow> floatOr v d = JNum (Fin d)"
  by (simp add: floatOr_def js_or_def)

lemma floatOr_eq:
  "floatOr v d =
     (if parseFloat v = NaN \<or> parseFloat v = Fin 0 then JNum (Fin d) else JNum (parseFloat v))"
  by (simp add: floatOr_def js_or_def)

lemma idKey_simps:
  "idKey Clients = ''clientID''" "idKey Workers = ''workerID''" "idKey Tasks = ''taskID''"
  by (simp_all add: idKey_def entityName_def)

text \<open>What \<open>processRow\<close> returns, field by field, for each of the three kinds.\<close>

lemma processRow_Clients:
  "\<exists>p. processRow Clients r i = Inr p
     \<and> js_get p ''id'' = js_or (js_get r ''clientID'') (JStr (''temp-'' @ natDigits i))
     \<and> coerceStrings (js_get r ''RequestedTaskIDs'') = Inr (js_get p ''RequestedTaskIDs'')
     \<and> coerceInts (js_get r ''PreferredPhases'') = Inr (js_get p ''PreferredPhases'')
     \<and> js_get p ''PriorityLevel'' = intOr (js_get r ''PriorityLevel'') 1
     \<and> js_get p ''MaxBudget'' = floatOr (js_get r ''MaxBudget'') 0
     \<and> (\<forall>k. k \<notin> {''id'', ''RequestedTaskIDs'', ''PreferredPhases'', ''PriorityLevel'',
                   ''MaxBudget''} \<longrightarrow> js_get p k = js_get r k)"
  by (simp add: processRow.simps coerceStrings_eq coerceInts_eq bindE_def js_get_update
      withId_def idKey_simps)

lemma processRow_Workers:
  "\<exists>p. processRow Workers r i = Inr p
     \<and> js_get p ''id'' = js_or (js_get r ''workerID'') (JStr (''temp-'' @ natDigits i))
     \<and> coerceStrings (js_get r ''Skills'') = Inr (js_get p ''Skills'')
     \<and> coerceInts (js_get r ''AvailableSlots'') = Inr (js_get p ''AvailableSlots'')
     \<and> js_get p ''MaxLoadPerPhase'' = intOr (js_get r ''MaxLoadPerPhase'') 1
     \<and> js_get p ''HourlyRate'' = floatOr (js_get r ''HourlyRate'') 0
     \<and> (\<forall>k. k \<notin> {''id'', ''Skills'', ''AvailableSlots'', ''MaxLoadPerPhase'',
                   ''HourlyRate''} \<longrightarrow> js_get p k = js_get r k)"
  by (simp add: processRow.simps coerceStrings_eq coerceInts_eq bindE_def js_get_update
      withId_def idKey_simps)

lemma processRow_Tasks:
  "\<exists>p. processRow Tasks r i = Inr p
     \<and> js_get p ''id'' = js_or (js_get r ''taskID'') (JStr (''temp-'' @ natDigits i))
     \<and> coerceStrings (js_get r ''RequiredSkills'') = Inr (js_get p ''RequiredSkills'')
     \<and> coerceInts (js_get r ''PreferredPhases'') = Inr (js_get p ''PreferredPhases'')
     \<and> coerceStrings (js_get r ''Dependencies'') = Inr (js_get p ''Dependencies'')
     \<and> js_get p ''Duration'' = intOr (js_get r ''Duration'') 1
     \<and> js_get p ''PriorityLevel'' = intOr (js_get r ''PriorityLevel'') 1
     \<and> js_get p ''MaxConcurrent'' = intOr (js_get r ''MaxConcurrent'') 1
     \<and> (\<forall>k. k \<notin> {''id'', ''RequiredSkills'', ''PreferredPhases'', ''Dependencies'',
                   ''Duration'', ''PriorityLevel'', ''MaxConcurrent''}
              \<longrightarrow> js_get p k = js_get r k)"
  by (simp add: processRow.simps coerceStrings_eq coerceInts_eq bindE_def js_get_update
      withId_def idKey_simps)

text \<open>The scalar numeric fields of a coerced record.\<close>

lemma coerced_numeric:
  "coercesTo Clients r i ''PriorityLevel'' (intOr (js_get r ''PriorityLevel'') 1)"
  "coercesTo Clients r i ''MaxBudget'' (floatOr (js_get r ''MaxBudget'') 0)"
  "coercesTo Workers r i ''MaxLoadPerPhase'' (intOr (js_get r ''MaxLoadPerPhase'') 1)"
  "coercesTo Workers r i ''HourlyRate'' (floatOr (js_get r ''HourlyRate'') 0)"
  "coercesTo Tasks r i ''Duration'' (intOr (js_get r ''Duration'') 1)"
  "coercesTo Tasks r i ''PriorityLevel'' (intOr (js_get r ''PriorityLevel'') 1)"
  "coercesTo Tasks r i ''MaxConcurrent'' (intOr (js_get r ''MaxConcurrent'') 1)"
proof -
  obtain pc where pc: "processRow Clients r i = Inr pc"
      "js_get pc ''PriorityLevel'' = intOr (js_get r ''PriorityLevel'') 1"
      "js_get pc ''MaxBudget'' = floatOr (js_get r ''MaxBudget'') 0"
    using processRow_Clients [of r i] by blast
  obtain pw where pw: "processRow Workers r i = Inr pw"
      "js_get pw ''MaxLoadPerPhase'' = intOr (js_get r ''MaxLoadPerPhase'') 1"
      "js_get pw ''HourlyRate'' = floatOr (js_get r ''HourlyRate'') 0"
    using processRow_Workers [of r i] by blast
  obtain pt where pt: "processRow Tasks r i = Inr pt"
      "js_get pt ''Duration'' = intOr (js_get r ''Duration'') 1"
      "js_get pt ''PriorityLevel'' = intOr (js_get r ''PriorityLevel'') 1"
      "js_get pt ''MaxConcurrent'' = intOr (js_get r ''MaxConcurrent'') 1"
    using processRow_Tasks [of r i] by blast
  show "coercesTo Clients r i ''PriorityLevel'' (intOr (js_get r ''PriorityLevel'') 1)"
    "coercesTo Clients r i ''MaxBudget'' (floatOr (js_get r ''MaxBudget'') 0)"
    "coercesTo Workers r i ''MaxLoadPerPhase'' (intOr (js_get r ''MaxLoadPerPhase'') 1)"
    "coercesTo Workers r i ''HourlyRate'' (floatOr (js_get r ''HourlyRate'') 0)"
    "coercesTo Tasks r i ''Duration'' (intOr (js_get r ''Duration'') 1)"
    "coercesTo Tasks r i ''PriorityLevel'' (intOr (js_get r ''PriorityLevel'') 1)"
    "coercesTo Tasks r i ''MaxConcurrent'' (intOr (js_get r ''MaxConcurrent'') 1)"
    by (simp_all add: pc pw pt)
qed

text \<open>The identity of a coerced record.\<close>

lemma coerced_id:
  "coercesTo Clients r i ''id'' (js_or (js_get r ''clientID'') (JStr (''temp-'' @ natDigits i)))"
  "coercesTo Workers r i ''id'' (js_or (js_get r ''workerID'') (JStr (''temp-'' @ natDigits i)))"
  "coercesTo Tasks r i ''id'' (js_or (js_get r ''taskID'') (JStr (''temp-'' @ natDigits i)))"
proof -
  obtain pc where pc: "processRow Clients r i = Inr pc"
      "js_get pc ''id'' = js_or (js_get r ''clientID'') (JStr (''temp-'' @ natDigits i))"
    using processRow_Clients [of r i] by blast
  obtain pw where pw: "processRow Workers r i = Inr pw"
      "js_get pw ''id'' = js_or (js_get r ''workerID'') (JStr (''temp-'' @ natDigits i))"
    using processRow_Workers [of r i] by blast
  obtain pt where pt: "processRow Tasks r i = Inr pt"
      "js_get pt ''id'' = js_or (js_get r ''taskID'') (JStr (''temp-'' @ natDigits i))"
    using processRow_Tasks [of r i] by blast
  show "coercesTo Clients r i ''id'' (js_or (js_get r ''clientID'') (JStr (''temp-'' @ natDigits i)))"
    "coercesTo Workers r i ''id'' (js_or (js_get r ''workerID'') (JStr (''temp-'' @ natDigits i)))"
    "coercesTo Tasks r i ''id'' (js_or (js_get r ''taskID'') (JStr (''temp-'' @ natDigits i)))"
    by (simp_all add: pc pw pt)
qed

text \<open>The list fields of a coerced record.\<close>

lemma coerced_lists:
  "coercesTo Clients r i ''RequestedTaskIDs''
     (case js_get r ''RequestedTaskIDs'' of JStr s \<Rightarrow> trimmedPieces s
      | _ \<Rightarrow> js_or (js_get r ''RequestedTaskIDs'') (JArr []))"
  "coercesTo Clients r i ''PreferredPhases''
     (case js_get r ''PreferredPhases'' of JStr s \<Rightarrow> parsedPieces s
      | _ \<Rightarrow> js_or (js_get r ''PreferredPhases'') (JArr []))"
  "coercesTo Workers r i ''Skills''
     (case js_get r ''Skills'' of JStr s \<Rightarrow> trimmedPieces s
      | _ \<Rightarrow> js_or (js_get r ''Skills'') (JArr []))"
  "coercesTo Workers r i ''AvailableSlots''
     (case js_get r ''AvailableSlots'' of JStr s \<Rightarrow> parsedPieces s
      | _ \<Rightarrow> js_or (js_get r ''AvailableSlots'') (JArr []))"
  "coercesTo Tasks r i ''RequiredSkills''
     (case js_get r ''RequiredSkills'' of JStr s \<Rightarrow> trimmedPieces s
      | _ \<Rightarrow> js_or (js_get r ''RequiredSkills'') (JArr []))"
  "coercesTo Tasks r i ''PreferredPhases''
     (case js_get r ''PreferredPhases'' of JStr s \<Rightarrow> parsedPieces s
      | _ \<Rightarrow> js_or (js_get r ''PreferredPhases'') (JArr []))"
  "coercesTo Tasks r i ''Dependencies''
     (case js_get r ''Dependencies'' of JStr s \<Rightarrow> trimmedPieces s
      | _ \<Rightarrow> js_or (js_get r ''Dependencies'') (JArr []))"
proof -
  obtain pc where pc: "processRow Clients r i = Inr pc"
      "coerceStrings (js_get r ''RequestedTaskIDs'') = Inr (js_get pc ''RequestedTaskIDs'')"
      "coerceInts (js_get r ''PreferredPhases'') = Inr (js_get pc ''PreferredPhases'')"
    using processRow_Clients [of r i] by blast
  obtain pw where pw: "processRow Workers r i = Inr pw"
      "coerceStrings (js_get r ''Skills'') = Inr (js_get pw ''Skills'')"
      "coerceInts (js_get r ''AvailableSlots'') = Inr (js_get pw ''AvailableSlots'')"
    using processRow_Workers [of r i] by blast
  obtain pt where pt: "processRow Tasks r i = Inr pt"
      "coerceStrings (js_get r ''RequiredSkills'') = Inr (js_get pt ''RequiredSkills'')"
      "coerceInts (js_get r ''PreferredPhases'') = Inr (js_get pt ''PreferredPhases'')"
      "coerceStrings (js_get r ''Dependencies'') = Inr (js_get pt ''Dependencies'')"
    using processRow_Tasks [of r i] by blast
  show "coercesTo Clients r i ''RequestedTaskIDs''
     (case js_get r ''RequestedTaskIDs'' of JStr s \<Rightarrow> trimmedPieces s
      | _ \<Rightarrow> js_or (js_get r ''RequestedTaskIDs'') (JArr []))"
    "coercesTo Clients r i ''PreferredPhases''
     (case js_get r ''PreferredPhases'' of JStr s \<Rightarrow> parsedPieces s
      | _ \<Rightarrow> js_or (js_get r ''PreferredPhases'') (JArr []))"
    "coercesTo Workers r i ''Skills''
     (case js_get r ''Skills'' of JStr s \<Rightarrow> trimmedPieces s
      | _ \<Rightarrow> js_or (js_get r ''Skills'') (JArr []))"
    "coercesTo Workers r i ''AvailableSlots''
     (case js_get r ''AvailableSlots'' of JStr s \<Rightarrow> parsedPieces s
      | _ \<Rightarrow> js_or (js_get r ''AvailableSlots'') (JArr []))"
    "coercesTo Tasks r i ''RequiredSkills''
     (case js_get r ''RequiredSkills'' of JStr s \<Rightarrow> trimmedPieces s
      | _ \<Rightarrow> js_or (js_get r ''RequiredSkills'') (JArr []))"
    "coercesTo Tasks r i ''PreferredPhases''
     (case js_get r ''PreferredPhases'' of JStr s \<Rightarrow> parsedPieces s
      | _ \<Rightarrow> js_or (js_get r ''PreferredPhases'') (JArr []))"
    "coercesTo Tasks r i ''Dependencies''
     (case js_get r ''Dependencies'' of JStr s \<Rightarrow> trimmedPieces s
      | _ \<Rightarrow> js_or (js_get r ''Dependencies'') (JArr []))"
    using pc(2,3) pw(2,3) pt(2,3,4)
    by (simp_all add: pc(1) pw(1) pt(1) coerceStrings_eq coerceInts_eq)
qed

lemma intOr_isNumber: "isNumber (intOr v d)"
  by (simp add: intOr_eq)

lemma floatOr_isNumber: "isNumber (floatOr v d)"
  by (simp add: floatOr_eq)

lemma id_truthy: "truthy (js_or v (JStr (''temp-'' @ ds)))"
  by (simp add: js_or_def)

lemma coerceStrings_isArray: "listable v \<Longrightarrow> coerceStrings v = Inr w \<Longrightarrow> isArray w"
  by (cases v) (auto simp: coerceStrings_eq js_or_def)

lemma coerceInts_isArray: "listable v \<Longrightarrow> coerceInts v = Inr w \<Longrightarrow> isArray w"
  by (cases v) (auto simp: coerceInts_eq js_or_def)

lemma processRow_returns: "\<exists>p. processRow entity r index = Inr p"
  by (cases entity) (simp_all add: processRow.simps coerceStrings_eq coerceInts_eq bindE_def)

lemma processRows_returns:
  "\<exists>ps. processRows entity index rs = Inr ps \<and> length ps = length rs"
proof (induction rs arbitrary: index)
  case Nil
  show ?case by simp
next
  case (Cons r rs)
  obtain p where p: "processRow entity r index = Inr p"
    using processRow_returns by blast
  obtain ps where ps: "processRows entity (Suc index) rs = Inr ps" "length ps = length rs"
    using Cons.IH by blast
  show ?case by (simp add: p ps bindE_def)
qed

lemma processRows_nth:
  "processRows e i rs = Inr ps \<Longrightarrow> n < length rs \<Longrightarrow> processRow e (rs ! n) (i + n) = Inr (ps ! n)"
proof (induction rs arbitrary: i ps n)
  case Nil
  then show ?case by simp
next
  case (Cons r rs)
  obtain p where p: "processRow e r i = Inr p"
    using processRow_returns by blast
  obtain qs where qs: "processRows e (Suc i) rs = Inr qs"
    using processRows_returns by blast
  have ps: "ps = p # qs"
    using Cons.prems(1) by (simp add: p qs bindE_def)
  show ?case
  proof (cases n)
    case 0
    then show ?thesis by (simp add: ps p)
  next
    case (Suc m)
    then have "m < length rs" using Cons.prems(2) by simp
    from Cons.IH [OF qs this] show ?thesis
      by (simp add: ps Suc)
  qed
qed

lemma processData_returns:
  "\<exists>records. processData rawData entity = Inr records \<and> length records = length rawData"
  unfolding processData_def by (rule processRows_returns)

subsection \<open>Splitting, trimming and joining\<close>

lemma split_on_nonempty: "split_on c s \<noteq> []"
  by (induction s) (auto split: list.splits)

lemma split_on_no_sep: "p \<in> set (split_on c s) \<Longrightarrow> c \<notin> set p"
  by (induction s arbitrary: p) (auto split: list.splits if_splits)

lemma split_on_prepend:
  "c \<notin> set pre \<Longrightarrow> split_on c (pre @ t) = (pre @ hd (split_on c t)) # tl (split_on c t)"
proof (induction pre)
  case Nil
  then show ?case using split_on_nonempty [of c t] by simp
next
  case (Cons a pre)
  then show ?case by auto
qed

lemma split_on_join:
  assumes "c \<notin> set sep'" and "c \<notin> set x" and "\<forall>p \<in> set ps. c \<notin> set p"
  shows "split_on c (join (c # sep') (x # ps)) = x # map ((@) sep') ps"
  using assms
proof (induction ps arbitrary: x)
  case Nil
  then show ?case using split_on_prepend [of c x "[]"] by simp
next
  case (Cons y ps)
  have "split_on c (join (c # sep') (y # ps)) = y # map ((@) sep') ps"
    using Cons by simp
  then have "split_on c (sep' @ join (c # sep') (y # ps)) = (sep' @ y) # map ((@) sep') ps"
    using split_on_prepend [of c sep' "join (c # sep') (y # ps)"] Cons.prems(1) by simp
  then show ?case
    using split_on_prepend [of c x "c # sep' @ join (c # sep') (y # ps)"] Cons.prems(2) by simp
qed

lemma dropWhile_idem: "dropWhile P (dropWhile P xs) = dropWhile P xs"
  by (induction xs) auto

lemma last_dropWhile: "dropWhile P xs \<noteq> [] \<Longrightarrow> last (dropWhile P xs) = last xs"
  by (induction xs) auto

lemma dropWhile_rev_dropWhile:
  "dropWhile P (rev (dropWhile P (rev (dropWhile P xs)))) = rev (dropWhile P (rev (dropWhile P xs)))"
proof -
  define q where "q = dropWhile P xs"
  define u where "u = dropWhile P (rev q)"
  have "dropWhile P (rev u) = rev u"
  proof (cases "u = []")
    case True
    then show ?thesis by simp
  next
    case False
    then have q: "q \<noteq> []" unfolding u_def by auto
    then have hq: "\<not> P (hd q)" unfolding q_def by (metis hd_dropWhile)
    have "last u = last (rev q)"
      using False unfolding u_def by (rule last_dropWhile)
    then have "hd (rev u) = hd q"
      using False q by (simp add: hd_rev last_rev)
    then have "\<not> P (hd (rev u))" using hq by simp
    then show ?thesis using False by (cases "rev u") auto
  qed
  then show ?thesis unfolding u_def q_def .
qed

lemma trim_trim: "trim (trim s) = trim s"
  by (simp add: trim_def dropWhile_rev_dropWhile)

lemma trim_space_trim: "trim (CHR '' '' # trim s) = trim s"
proof -
  have "isWhiteSpace CHR '' ''" by (simp add: isWhiteSpace_def)
  then have "trim (CHR '' '' # trim s) = trim (trim s)"
    by (simp add: trim_def)
  then show ?thesis by (simp add: trim_trim)
qed

lemma set_trim: "set (trim s) \<subseteq> set s"
proof -
  have "set (dropWhile P xs) \<subseteq> set xs" for P and xs :: string
    by (auto dest: set_dropWhileD)
  then show ?thesis
    unfolding trim_def by (metis set_rev subset_trans)
qed

lemma rejoin_roundtrip:
  "map trim (split_on CHR '','' (join '', '' (map trim (split_on CHR '','' s))))
     = map trim (split_on CHR '','' s)"
proof -
  obtain x ps where xs: "split_on CHR '','' s = x # ps"
    using split_on_nonempty [of "CHR '',''" s] by (cases "split_on CHR '','' s") auto
  have nosep: "CHR '','' \<notin> set (trim p)" if "p \<in> set (x # ps)" for p
    using split_on_no_sep [of p "CHR '',''" s] set_trim [of p] that xs by auto
  have "split_on CHR '','' (join (CHR '','' # '' '') (trim x # map trim ps))
          = trim x # map ((@) '' '') (map trim ps)"
    by (rule split_on_join) (use nosep in auto)
  then show ?thesis
    by (simp add: xs trim_trim trim_space_trim)
qed

lemma str_includes_sublist: "str_includes s t \<longleftrightarrow> sublist t s"
  by (induction s) (simp_all add: sublist_Cons_right)

subsection \<open>The header mapping and the rebuilt rows\<close>

lemma map_of_mapHeader:
  "map_of (mapHeader e acc x) h =
     (if h = x then
        (case findTarget (normalized x) (headerMappings e) of
           Some t \<Rightarrow> Some (if t = [] then x else t)
         | None \<Rightarrow> if propTruthy (readMapping acc x) then map_of acc x else Some x)
      else map_of acc h)"
proof (cases "findTarget (normalized x) (headerMappings e)")
  case None
  then show ?thesis
    by (simp add: mapHeader_def Let_def update_conv')
next
  case (Some t)
  have "readMapping (AList.update x t acc) x = Own t"
    by (simp add: readMapping_def update_conv')
  then show ?thesis
    using Some by (simp add: mapHeader_def Let_def update_conv')
qed

lemma map_of_foldl_mapHeader:
  "map_of (foldl (mapHeader e) acc ks) h =
     (if h \<in> set ks then
        (case findTarget (normalized h) (headerMappings e) of
           Some t \<Rightarrow> Some (if t = [] then h else t)
         | None \<Rightarrow> if propTruthy (readMapping acc h) then map_of acc h else Some h)
      else map_of acc h)"
proof (induction ks arbitrary: acc)
  case Nil
  show ?case by simp
next
  case (Cons x xs)
  define acc1 where "acc1 = mapHeader e acc x"
  have step: "map_of (foldl (mapHeader e) acc (x # xs)) h = map_of (foldl (mapHeader e) acc1 xs) h"
    by (simp add: acc1_def)
  note IH = Cons.IH [of acc1]
  show ?case
  proof (cases "h = x")
    case False
    then have "map_of acc1 h = map_of acc h"
      by (simp add: map_of_mapHeader acc1_def)
    then have "readMapping acc1 h = readMapping acc h" "map_of acc1 h = map_of acc h"
      by (simp_all add: readMapping_def)
    then show ?thesis
      unfolding step IH using False by (simp split: option.splits)
  next
    case True
    show ?thesis
    proof (cases "findTarget (normalized h) (headerMappings e)")
      case (Some t)
      have "map_of acc1 h = Some (if t = [] then h else t)"
        using True Some by (simp add: map_of_mapHeader acc1_def)
      then show ?thesis
        unfolding step IH using True Some by simp
    next
      case None
      have m1: "map_of acc1 h = (if propTruthy (readMapping acc h) then map_of acc h else Some h)"
        using True None by (simp add: map_of_mapHeader acc1_def)
      have r1: "readMapping acc1 h = (if propTruthy (readMapping acc h) then readMapping acc h else Own h)"
        using m1 by (simp add: readMapping_def)
      show ?thesis
        unfolding step IH m1 r1 using True None by simp
    qed
  qed
qed

lemma readMapping_build:
  assumes "h \<in> keysOf firstRow"
  shows "readMapping (buildHeaderMapping e firstRow) h =
     (case findTarget (normalized h) (headerMappings e) of
        Some t \<Rightarrow> Own (if t = [] then h else t)
      | None \<Rightarrow> (case map_of objectPrototype h of Some s \<Rightarrow> Inherited s | None \<Rightarrow> Own h))"
proof -
  have "h \<in> set (map fst firstRow)" using assms by simp
  then have "map_of (buildHeaderMapping e firstRow) h =
     (case findTarget (normalized h) (headerMappings e) of
        Some t \<Rightarrow> Some (if t = [] then h else t)
      | None \<Rightarrow> if propTruthy (readMapping [] h) then None else Some h)"
    unfolding buildHeaderMapping_def map_of_foldl_mapHeader by (simp split: option.splits)
  then show ?thesis
    by (simp add: readMapping_def split: option.splits)
qed

lemma map_of_build_cases:
  assumes "map_of (buildHeaderMapping e firstRow) k = Some v"
  shows "v = k \<or> findTarget (normalized k) (headerMappings e) = Some v"
proof -
  have "map_of (buildHeaderMapping e firstRow) k =
     (if k \<in> set (map fst firstRow) then
        (case findTarget (normalized k) (headerMappings e) of
           Some t \<Rightarrow> Some (if t = [] then k else t)
         | None \<Rightarrow> if propTruthy (readMapping [] k) then map_of [] k else Some k)
      else map_of [] k)"
    unfolding buildHeaderMapping_def by (rule map_of_foldl_mapHeader)
  with assms show ?thesis
    by (auto split: if_splits option.splits)
qed

lemma findTarget_first:
  "\<forall>(l, t) \<in> set earlier. \<not> labelMatches nh l \<Longrightarrow> labelMatches nh label
     \<Longrightarrow> findTarget nh (earlier @ (label, target) # later) = Some target"
  by (induction earlier) auto

lemma findTarget_None: "findTarget nh tbl = None \<longleftrightarrow> (\<forall>(l, t) \<in> set tbl. \<not> labelMatches nh l)"
  by (induction tbl) (auto split: if_splits)

lemma findTarget_Some: "findTarget nh tbl = Some t \<Longrightarrow> \<exists>l. (l, t) \<in> set tbl \<and> labelMatches nh l"
  by (induction tbl) (auto split: if_splits)

lemma table_facts:
  "list_all (\<lambda>(l, t). t \<noteq> [] \<and> labelMatches (normalized t) l) (headerMappings Clients)"
  "list_all (\<lambda>(l, t). t \<noteq> [] \<and> labelMatches (normalized t) l) (headerMappings Workers)"
  "list_all (\<lambda>(l, t). t \<noteq> [] \<and> labelMatches (normalized t) l) (headerMappings Tasks)"
  by code_simp+

lemma target_facts:
  assumes "(l, t) \<in> set (headerMappings e)"
  shows "t \<noteq> []" and "labelMatches (normalized t) l"
proof -
  have "list_all (\<lambda>(l, t). t \<noteq> [] \<and> labelMatches (normalized t) l) (headerMappings e)"
    using table_facts by (cases e) simp_all
  with assms show "t \<noteq> []" and "labelMatches (normalized t) l"
    by (auto simp: list_all_iff)
qed

lemma find_snoc:
  "find P (xs @ [x]) = (case find P xs of Some y \<Rightarrow> Some y | None \<Rightarrow> if P x then Some x else None)"
  by (induction xs) auto

lemma map_of_transform_fold:
  "map_of (foldl (\<lambda>transformedRow key.
              if propTruthy (readMapping hm key)
              then AList.update (propKey (readMapping hm key)) (js_get r key) transformedRow
              else transformedRow) acc ks) k =
     (case find (\<lambda>key. mapsTo hm key k) (rev ks) of
        Some key \<Rightarrow> Some (js_get r key)
      | None \<Rightarrow> map_of acc k)"
proof (induction ks arbitrary: acc)
  case Nil
  show ?case by simp
next
  case (Cons x xs)
  show ?case
    by (simp add: Cons.IH find_snoc update_conv' split: option.splits)
qed

lemma map_of_transformRow:
  "map_of (transformRow hm r) k =
     (case find (\<lambda>key. mapsTo hm key k) (rev (map fst r)) of
        Some key \<Rightarrow> Some (js_get r key)
      | None \<Rightarrow> None)"
  unfolding transformRow_def Let_def map_of_transform_fold by (simp split: option.splits)

lemma find_unique:
  assumes "h \<in> set ks" and "P h" and "\<forall>k \<in> set ks. k \<noteq> h \<longrightarrow> \<not> P k"
  shows "find P ks = Some h"
  using assms by (induction ks) auto

lemma transformRow_carries:
  assumes "h \<in> keysOf r" and "mapsTo hm h t"
      and "\<forall>k \<in> keysOf r. k \<noteq> h \<longrightarrow> \<not> mapsTo hm k t"
  shows "js_get (transformRow hm r) t = js_get r h"
proof -
  have "find (\<lambda>key. mapsTo hm key t) (rev (map fst r)) = Some h"
    by (rule find_unique) (use assms in auto)
  then show ?thesis
    by (simp add: js_get_def [of "transformRow hm r"] map_of_transformRow)
qed

lemma mapHeaders_nonempty:
  "rawData \<noteq> [] \<Longrightarrow>
     mapHeaders rawData e = map (transformRow (buildHeaderMapping e (hd rawData))) rawData"
  by (simp add: mapHeaders_def)

lemma mapHeaders_examples:
  "mapHeaders [[(''Notes'', JStr ''x'')]] Clients = [[(''Notes'', JStr ''x'')]]"
  "mapHeaders [[([], JStr ''x'')]] Clients = [[]]"
  "mapHeaders [[(''ClientID'', JStr ''C1'')]] Clients = [[(''ClientID'', JStr ''C1'')]]"
  "mapHeaders [[(''  clientid  '', JStr ''C1'')]] Clients = [[(''ClientID'', JStr ''C1'')]]"
  "mapHeaders [[(''Client ID'', JStr ''C1'')]] Clients = [[(''Client ID'', JStr ''C1'')]]"
  "mapHeaders [[(''  client id  '', JStr ''C1'')]] Clients = [[(''  client id  '', JStr ''C1'')]]"
  "mapHeaders [[(''clientname clientid'', JStr ''x'')]] Clients = [[(''ClientID'', JStr ''x'')]]"
  "labelMatches (normalized ''clientname clientid'') ''Client Name''"
  by code_simp+

lemma namedRow_facts:
  "labelMatches (normalized ''clientname'') ''Client Name''"
  "\<not> labelMatches (normalized ''clientname'') ''Client ID''"
  "readMapping (buildHeaderMapping Clients namedRow) ''Notes'' = Own ''Notes''"
  "findTarget (normalized ''Notes'') (headerMappings Clients) = None"
  by code_simp+

subsection \<open>The identity after the header pass\<close>

text \<open>
  No column is ever sent to the key that \<open>processData\<close> reads the identity from, so
  every record of an import is numbered by its position.
\<close>

lemma transformRow_key_origin:
  assumes "k \<in> keysOf (transformRow hm r)"
  shows "\<exists>key. mapsTo hm key k"
proof -
  from assms have "map_of (transformRow hm r) k \<noteq> None"
    by (simp add: map_of_eq_None_iff)
  then obtain key where "find (\<lambda>key. mapsTo hm key k) (rev (map fst r)) = Some key"
    unfolding map_of_transformRow
    by (cases "find (\<lambda>key. mapsTo hm key k) (rev (map fst r))") auto
  then have "mapsTo hm key k"
    by (auto simp: find_Some_iff)
  then show ?thesis by blast
qed

lemma idKey_facts:
  "findTarget (normalized (idKey Clients)) (headerMappings Clients) = Some ''ClientID''"
  "findTarget (normalized (idKey Workers)) (headerMappings Workers) = Some ''WorkerID''"
  "findTarget (normalized (idKey Tasks)) (headerMappings Tasks) = Some ''TaskID''"
  "idKey Clients \<notin> snd ` set (headerMappings Clients)"
  "idKey Workers \<notin> snd ` set (headerMappings Workers)"
  "idKey Tasks \<notin> snd ` set (headerMappings Tasks)"
  "idKey Clients \<notin> snd ` set objectPrototype"
  "idKey Workers \<notin> snd ` set objectPrototype"
  "idKey Tasks \<notin> snd ` set objectPrototype"
  by code_simp+

lemma idKey_is_matched:
  "\<exists>t. findTarget (normalized (idKey e)) (headerMappings e) = Some t \<and> t \<noteq> idKey e \<and> t \<noteq> []"
  by (cases e) (simp_all add: idKey_facts, simp_all add: idKey_simps)

lemma idKey_not_target: "idKey e \<notin> snd ` set (headerMappings e)"
  by (cases e) (simp_all only: idKey_facts simp_thms)

lemma idKey_not_inherited: "idKey e \<notin> snd ` set objectPrototype"
  by (cases e) (simp_all only: idKey_facts simp_thms)

lemma nothing_maps_to_idKey: "\<not> mapsTo (buildHeaderMapping e firstRow) key (idKey e)"
proof
  let ?hm = "buildHeaderMapping e firstRow"
  assume m: "mapsTo ?hm key (idKey e)"
  show False
  proof (cases "map_of ?hm key")
    case None
    then have "\<exists>s. map_of objectPrototype key = Some s \<and> s = idKey e"
      using m by (auto simp: readMapping_def split: option.splits)
    then have "idKey e \<in> snd ` set objectPrototype"
      by (auto dest: map_of_SomeD intro: rev_image_eqI)
    then show False using idKey_not_inherited by blast
  next
    case (Some v)
    then have v: "v = idKey e" using m by (simp add: readMapping_def)
    from map_of_build_cases [OF Some]
    show False
    proof
      assume "v = key"
      then have k: "key = idKey e" using v by simp
      obtain t where t: "findTarget (normalized (idKey e)) (headerMappings e) = Some t"
          "t \<noteq> idKey e" "t \<noteq> []"
        using idKey_is_matched by blast
      have "map_of ?hm (idKey e) =
         (if idKey e \<in> set (map fst firstRow) then
            (case findTarget (normalized (idKey e)) (headerMappings e) of
               Some t \<Rightarrow> Some (if t = [] then idKey e else t)
             | None \<Rightarrow> if propTruthy (readMapping [] (idKey e)) then map_of [] (idKey e)
                       else Some (idKey e))
          else map_of [] (idKey e))"
        unfolding buildHeaderMapping_def by (rule map_of_foldl_mapHeader)
      then show False
        using Some k v t by (simp split: if_splits)
    next
      assume "findTarget (normalized key) (headerMappings e) = Some v"
      then obtain l where "(l, v) \<in> set (headerMappings e)"
        using findTarget_Some by blast
      then have "idKey e \<in> snd ` set (headerMappings e)"
        using v by (auto intro: rev_image_eqI)
      then show False using idKey_not_target by blast
    qed
  qed
qed

lemma mapHeaders_has_no_idKey:
  assumes "r \<in> set (mapHeaders rawData e)"
  shows "js_get r (idKey e) = JUndefined"
proof (cases "rawData = []")
  case True
  then show ?thesis using assms by (simp add: mapHeaders_def)
next
  case False
  then obtain r0 where "r = transformRow (buildHeaderMapping e (hd rawData)) r0"
    using assms by (auto simp: mapHeaders_nonempty)
  then have "idKey e \<notin> keysOf r"
    using transformRow_key_origin nothing_maps_to_idKey by blast
  then have "map_of r (idKey e) = None"
    by (simp add: map_of_eq_None_iff)
  then show ?thesis
    by (simp add: js_get_def)
qed

lemma coerced_id_any:
  "coercesTo e r i ''id'' (js_or (js_get r (idKey e)) (JStr (''temp-'' @ natDigits i)))"
  by (cases e) (simp_all only: idKey_simps coerced_id)

lemma processRows_ids:
  "processRows e i rs = Inr ps \<Longrightarrow> n < length ps \<Longrightarrow>
     js_get (ps ! n) ''id'' = js_or (js_get (rs ! n) (idKey e)) (JStr (''temp-'' @ natDigits (i + n)))"
proof (induction rs arbitrary: i ps n)
  case Nil
  then show ?case by simp
next
  case (Cons r rs)
  obtain p where p: "processRow e r i = Inr p"
      "js_get p ''id'' = js_or (js_get r (idKey e)) (JStr (''temp-'' @ natDigits i))"
    using coerced_id_any [of e r i] by blast
  obtain qs where qs: "processRows e (Suc i) rs = Inr qs"
    using processRows_returns by blast
  have ps: "ps = p # qs"
    using Cons.prems(1) by (simp add: p qs bindE_def)
  show ?case
  proof (cases n)
    case 0
    then show ?thesis by (simp add: ps p)
  next
    case (Suc m)
    then have "m < length qs" using Cons.prems(2) ps by simp
    from Cons.IH [OF qs this] show ?thesis
      by (simp add: ps Suc)
  qed
qed

corollary imported_ids_are_positional:
  assumes "processData (mapHeaders rawData e) e = Inr records" and "n < length records"
  shows "js_get (records ! n) ''id'' = JStr (''temp-'' @ natDigits n)"
proof -
  obtain ps where "processRows e 0 (mapHeaders rawData e) = Inr ps"
      "length ps = length (mapHeaders rawData e)"
    using processRows_returns by blast
  with assms have len: "n < length (mapHeaders rawData e)"
    by (simp add: processData_def)
  then have "mapHeaders rawData e ! n \<in> set (mapHeaders rawData e)"
    by simp
  then have "js_get (mapHeaders rawData e ! n) (idKey e) = JUndefined"
    by (rule mapHeaders_has_no_idKey)
  moreover have "js_get (records ! n) ''id''
      = js_or (js_get (mapHeaders rawData e ! n) (idKey e)) (JStr (''temp-'' @ natDigits (0 + n)))"
    using assms by (intro processRows_ids) (simp_all add: processData_def)
  ultimately show ?thesis
    by (simp add: js_or_def)
qed

text \<open>Parses of a few literal cells, evaluated.\<close>

lemma parse_literals:
  "parseInt (JStr ''abc'') = NaN"
  "parseInt (JStr []) = NaN"
  "parseFloat (JStr []) = NaN"
  "parseFloat (JStr ''n/a'') = NaN"
  "parseInt JUndefined = NaN"
  "parseFloat JUndefined = NaN"
  "parseInt JNull = NaN"
  "parseInt (JBool True) = NaN"
  "parseInt (JNum NaN) = NaN"
  "parseInt (JStr ''0'') = Fin 0"
  "parseFloat (JStr ''0'') = Fin 0"
  "parseInt (JStr ''3'') = Fin 3"
  "parseInt (JNum (Fin 0)) = Fin 0"
  "parseFloat (JStr ''12.5'') = Fin (25 / 2)"
  by code_simp+

section \<open>Record Coercer: the numeric fields\<close>

text \<open>
  Claim C4. For every scalar numeric field the coercer puts the fixed default of the field
  in place of a parse that fails: when \<open>parseInt\<close> (or, for the budget and the hourly
  rate, \<open>parseFloat\<close>) of the raw value is \<open>NaN\<close>, the priority level, the duration,
  the maximal load per phase and the maximal concurrency become 1, and the budget and the
  hourly rate become 0. A priority level \<open>"abc"\<close> is coerced to 1 and an empty budget
  to 0.
\<close>

theorem numeric_fallback_on_parse_failure:
  "(parseInt (js_get r ''PriorityLevel'') = NaN
      \<longrightarrow> coercesTo Clients r i ''PriorityLevel'' (JNum (Fin 1)))
   \<and> (parseFloat (js_get r ''MaxBudget'') = NaN
      \<longrightarrow> coercesTo Clients r i ''MaxBudget'' (JNum (Fin 0)))
   \<and> (parseInt (js_get r ''MaxLoadPerPhase'') = NaN
      \<longrightarrow> coercesTo Workers r i ''MaxLoadPerPhase'' (JNum (Fin 1)))
   \<and> (parseFloat (js_get r ''HourlyRate'') = NaN
      \<longrightarrow> coercesTo Workers r i ''HourlyRate'' (JNum (Fin 0)))
   \<and> (parseInt (js_get r ''Duration'') = NaN
      \<longrightarrow> coercesTo Tasks r i ''Duration'' (JNum (Fin 1)))
   \<and> (parseInt (js_get r ''PriorityLevel'') = NaN
      \<longrightarrow> coercesTo Tasks r i ''PriorityLevel'' (JNum (Fin 1)))
   \<and> (parseInt (js_get r ''MaxConcurrent'') = NaN
      \<longrightarrow> coercesTo Tasks r i ''MaxConcurrent'' (JNum (Fin 1)))
   \<and> parseInt (JStr ''abc'') = NaN
   \<and> parseFloat (JStr []) = NaN
   \<and> coercesTo Clients [(''PriorityLevel'', JStr ''abc'')] i ''PriorityLevel'' (JNum (Fin 1))
   \<and> coercesTo Clients [(''MaxBudget'', JStr [])] i ''MaxBudget'' (JNum (Fin 0))"
proof -
  note g = coerced_numeric [of r i]
  have e1: "coercesTo Clients [(''PriorityLevel'', JStr ''abc'')] i ''PriorityLevel'' (JNum (Fin 1))"
    using coerced_numeric(1) [of "[(''PriorityLevel'', JStr ''abc'')]" i]
    by (simp add: js_get_Cons intOr_NaN parse_literals)
  have e2: "coercesTo Clients [(''MaxBudget'', JStr [])] i ''MaxBudget'' (JNum (Fin 0))"
    using coerced_numeric(2) [of "[(''MaxBudget'', JStr [])]" i]
    by (simp add: js_get_Cons floatOr_NaN parse_literals)
  show ?thesis
    using g by (intro conjI impI) (simp_all add: intOr_NaN floatOr_NaN parse_literals e1 e2)
qed

text \<open>The same at a row in which every numeric cell fails to parse.\<close>

theorem numeric_fallback_on_parse_failure_witness:
  "parseInt (js_get malformedRow ''PriorityLevel'') = NaN
   \<and> coercesTo Clients malformedRow 0 ''PriorityLevel'' (JNum (Fin 1))
   \<and> parseFloat (js_get malformedRow ''MaxBudget'') = NaN
   \<and> coercesTo Clients malformedRow 0 ''MaxBudget'' (JNum (Fin 0))
   \<and> parseInt (js_get malformedRow ''MaxLoadPerPhase'') = NaN
   \<and> coercesTo Workers malformedRow 0 ''MaxLoadPerPhase'' (JNum (Fin 1))
   \<and> parseFloat (js_get malformedRow ''HourlyRate'') = NaN
   \<and> coercesTo Workers malformedRow 0 ''HourlyRate'' (JNum (Fin 0))
   \<and> parseInt (js_get malformedRow ''Duration'') = NaN
   \<and> coercesTo Tasks malformedRow 0 ''Duration'' (JNum (Fin 1))
   \<and> coercesTo Tasks malformedRow 0 ''PriorityLevel'' (JNum (Fin 1))
   \<and> parseInt (js_get malformedRow ''MaxConcurrent'') = NaN
   \<and> coercesTo Tasks malformedRow 0 ''MaxConcurrent'' (JNum (Fin 1))"
proof -
  have h: "parseInt (js_get malformedRow ''PriorityLevel'') = NaN"
    "parseFloat (js_get malformedRow ''MaxBudget'') = NaN"
    "parseInt (js_get malformedRow ''MaxLoadPerPhase'') = NaN"
    "parseFloat (js_get malformedRow ''HourlyRate'') = NaN"
    "parseInt (js_get malformedRow ''Duration'') = NaN"
    "parseInt (js_get malformedRow ''MaxConcurrent'') = NaN"
    by (simp_all add: js_get_def parse_literals)
  show ?thesis
    using numeric_fallback_on_parse_failure [of malformedRow 0]
    by (simp only: h simp_thms)
qed

text \<open>
  Claim C10. The fallback looks at the truthiness of the parsed number: a field whose raw
  value parses to 0 gets the default of the field exactly as one whose parse fails, and
  every other parse is kept. So the priority level, the duration, the maximal load per
  phase and the maximal concurrency of a coerced record are never 0 (a raw \<open>"0"\<close> gives
  1), while the budget and the hourly rate stay 0, their default being 0.
\<close>

theorem zero_parses_take_the_default:
  "coercesTo Clients r i ''PriorityLevel''
     (if parseInt (js_get r ''PriorityLevel'') = NaN \<or> parseInt (js_get r ''PriorityLevel'') = Fin 0
      then JNum (Fin 1) else JNum (parseInt (js_get r ''PriorityLevel'')))
   \<and> coercesTo Clients r i ''MaxBudget''
     (if parseFloat (js_get r ''MaxBudget'') = NaN \<or> parseFloat (js_get r ''MaxBudget'') = Fin 0
      then JNum (Fin 0) else JNum (parseFloat (js_get r ''MaxBudget'')))
   \<and> coercesTo Workers r i ''MaxLoadPerPhase''
     (if parseInt (js_get r ''MaxLoadPerPhase'') = NaN
         \<or> parseInt (js_get r ''MaxLoadPerPhase'') = Fin 0
      then JNum (Fin 1) else JNum (parseInt (js_get r ''MaxLoadPerPhase'')))
   \<and> coercesTo Workers r i ''HourlyRate''
     (if parseFloat (js_get r ''HourlyRate'') = NaN \<or> parseFloat (js_get r ''HourlyRate'') = Fin 0
      then JNum (Fin 0) else JNum (parseFloat (js_get r ''HourlyRate'')))
   \<and> coercesTo Tasks r i ''Duration''
     (if parseInt (js_get r ''Duration'') = NaN \<or> parseInt (js_get r ''Duration'') = Fin 0
      then JNum (Fin 1) else JNum (parseInt (js_get r ''Duration'')))
   \<and> coercesTo Tasks r i ''PriorityLevel''
     (if parseInt (js_get r ''PriorityLevel'') = NaN \<or> parseInt (js_get r ''PriorityLevel'') = Fin 0
      then JNum (Fin 1) else JNum (parseInt (js_get r ''PriorityLevel'')))
   \<and> coercesTo Tasks r i ''MaxConcurrent''
     (if parseInt (js_get r ''MaxConcurrent'') = NaN \<or> parseInt (js_get r ''MaxConcurrent'') = Fin 0
      then JNum (Fin 1) else JNum (parseInt (js_get r ''MaxConcurrent'')))
   \<and> \<not> coercesTo Clients r i ''PriorityLevel'' (JNum (Fin 0))
   \<and> \<not> coercesTo Workers r i ''MaxLoadPerPhase'' (JNum (Fin 0))
   \<and> \<not> coercesTo Tasks r i ''Duration'' (JNum (Fin 0))
   \<and> \<not> coercesTo Tasks r i ''PriorityLevel'' (JNum (Fin 0))
   \<and> \<not> coercesTo Tasks r i ''MaxConcurrent'' (JNum (Fin 0))
   \<and> coercesTo Clients [(''PriorityLevel'', JStr ''0'')] i ''PriorityLevel'' (JNum (Fin 1))
   \<and> coercesTo Workers [(''MaxLoadPerPhase'', JStr ''0'')] i ''MaxLoadPerPhase'' (JNum (Fin 1))
   \<and> coercesTo Tasks [(''Duration'', JStr ''0'')] i ''Duration'' (JNum (Fin 1))
   \<and> coercesTo Tasks [(''MaxConcurrent'', JStr ''0'')] i ''MaxConcurrent'' (JNum (Fin 1))
   \<and> coercesTo Clients [(''MaxBudget'', JStr ''0'')] i ''MaxBudget'' (JNum (Fin 0))
   \<and> coercesTo Workers [(''HourlyRate'', JStr ''0'')] i ''HourlyRate'' (JNum (Fin 0))"
proof -
  have nz: "intOr v 1 \<noteq> JNum (Fin 0)" for v
    by (simp add: intOr_eq)
  note g = coerced_numeric [of r i]
  have never:
    "\<not> coercesTo Clients r i ''PriorityLevel'' (JNum (Fin 0))"
    "\<not> coercesTo Workers r i ''MaxLoadPerPhase'' (JNum (Fin 0))"
    "\<not> coercesTo Tasks r i ''Duration'' (JNum (Fin 0))"
    "\<not> coercesTo Tasks r i ''PriorityLevel'' (JNum (Fin 0))"
    "\<not> coercesTo Tasks r i ''MaxConcurrent'' (JNum (Fin 0))"
    using g nz by auto
  have lit: "intOr (JStr ''0'') 1 = JNum (Fin 1)" "floatOr (JStr ''0'') 0 = JNum (Fin 0)"
    by (simp_all add: intOr_eq floatOr_eq parse_literals)
  have e1: "coercesTo Clients [(''PriorityLevel'', JStr ''0'')] i ''PriorityLevel'' (JNum (Fin 1))"
    using coerced_numeric(1) [of "[(''PriorityLevel'', JStr ''0'')]" i]
    by (simp add: js_get_Cons lit)
  have e2: "coercesTo Workers [(''MaxLoadPerPhase'', JStr ''0'')] i ''MaxLoadPerPhase'' (JNum (Fin 1))"
    using coerced_numeric(3) [of "[(''MaxLoadPerPhase'', JStr ''0'')]" i]
    by (simp add: js_get_Cons lit)
  have e3: "coercesTo Tasks [(''Duration'', JStr ''0'')] i ''Duration'' (JNum (Fin 1))"
    using coerced_numeric(5) [of "[(''Duration'', JStr ''0'')]" i]
    by (simp add: js_get_Cons lit)
  have e4: "coercesTo Tasks [(''MaxConcurrent'', JStr ''0'')] i ''MaxConcurrent'' (JNum (Fin 1))"
    using coerced_numeric(7) [of "[(''MaxConcurrent'', JStr ''0'')]" i]
    by (simp add: js_get_Cons lit)
  have e5: "coercesTo Clients [(''MaxBudget'', JStr ''0'')] i ''MaxBudget'' (JNum (Fin 0))"
    using coerced_numeric(2) [of "[(''MaxBudget'', JStr ''0'')]" i]
    by (simp add: js_get_Cons lit)
  have e6: "coercesTo Workers [(''HourlyRate'', JStr ''0'')] i ''HourlyRate'' (JNum (Fin 0))"
    using coerced_numeric(4) [of "[(''HourlyRate'', JStr ''0'')]" i]
    by (simp add: js_get_Cons lit)
  show ?thesis
    unfolding intOr_eq [symmetric] floatOr_eq [symmetric]
    by (intro conjI g never e1 e2 e3 e4 e5 e6)
qed

text \<open>The same at a row of zeros.\<close>

theorem zero_parses_take_the_default_witness:
  "coercesTo Tasks [(''Duration'', JStr ''0''), (''PriorityLevel'', JNum (Fin 0))] 0
     ''Duration'' (JNum (Fin 1))
   \<and> coercesTo Tasks [(''Duration'', JStr ''0''), (''PriorityLevel'', JNum (Fin 0))] 0
     ''PriorityLevel'' (JNum (Fin 1))
   \<and> \<not> coercesTo Tasks [(''Duration'', JStr ''0''), (''PriorityLevel'', JNum (Fin 0))] 0
     ''Duration'' (JNum (Fin 0))"
proof -
  let ?r = "[(''Duration'', JStr ''0''), (''PriorityLevel'', JNum (Fin 0))]"
  have h: "parseInt (js_get ?r ''Duration'') = Fin 0"
    "parseInt (js_get ?r ''PriorityLevel'') = Fin 0"
    by (simp_all add: js_get_Cons parse_literals)
  show ?thesis
    using zero_parses_take_the_default [of ?r 0]
    by (simp only: h simp_thms if_True)
qed

section \<open>Record Coercer: it always returns\<close>

text \<open>
  Claim C9 says that the coercer never raises and that every malformed value is silently
  replaced by a default. It never raises; but a list cell that is truthy and neither a
  string nor an array passes through \<open>v || []\<close> as it is: a task whose \<open>Dependencies\<close>
  cell is the number 7 keeps the number 7, where the default would be the empty list.
\<close>

theorem truthy_list_cell_is_kept:
  "processData [[(''Dependencies'', JNum (Fin 7))]] Tasks
     = Inr [[(''Dependencies'', JNum (Fin 7)), (''id'', JStr ''temp-0''),
             (''RequiredSkills'', JArr []), (''PreferredPhases'', JArr []),
             (''Duration'', JNum (Fin 1)), (''PriorityLevel'', JNum (Fin 1)),
             (''MaxConcurrent'', JNum (Fin 1))]]"
  by (simp add: processData_def processRow.simps coerceStrings_eq coerceInts_eq bindE_def
      withId_def idKey_simps js_get_Cons js_get_Nil js_or_def natDigits_literals intOr_NaN
      parse_literals)

text \<open>
  Claim C9, amended. The coercer never raises: for every list of rows and every entity
  kind, \<open>processData\<close> returns one record for each row, the coercion of that row at its
  index. Nothing is surfaced as an error: a scalar numeric cell whose parse fails becomes
  the default of its field, and a list cell that is falsy and not a string (missing,
  \<open>null\<close>, \<open>false\<close>, 0, \<open>NaN\<close>) becomes the empty list, while a list cell that is truthy
  and not a string (a number, an array) is kept as it is.
\<close>

theorem processData_returns_with_defaults:
  "(\<exists>records. processData rawData entity = Inr records
        \<and> length records = length rawData
        \<and> (\<forall>n < length rawData. processRow entity (rawData ! n) n = Inr (records ! n)))
   \<and> (\<forall>r i. parseInt (js_get r ''PriorityLevel'') = NaN
         \<longrightarrow> coercesTo Clients r i ''PriorityLevel'' (JNum (Fin 1)))
   \<and> (\<forall>r i. parseFloat (js_get r ''MaxBudget'') = NaN
         \<longrightarrow> coercesTo Clients r i ''MaxBudget'' (JNum (Fin 0)))
   \<and> (\<forall>r i. parseInt (js_get r ''MaxLoadPerPhase'') = NaN
         \<longrightarrow> coercesTo Workers r i ''MaxLoadPerPhase'' (JNum (Fin 1)))
   \<and> (\<forall>r i. parseFloat (js_get r ''HourlyRate'') = NaN
         \<longrightarrow> coercesTo Workers r i ''HourlyRate'' (JNum (Fin 0)))
   \<and> (\<forall>r i. parseInt (js_get r ''Duration'') = NaN
         \<longrightarrow> coercesTo Tasks r i ''Duration'' (JNum (Fin 1)))
   \<and> (\<forall>r i. parseInt (js_get r ''PriorityLevel'') = NaN
         \<longrightarrow> coercesTo Tasks r i ''PriorityLevel'' (JNum (Fin 1)))
   \<and> (\<forall>r i. parseInt (js_get r ''MaxConcurrent'') = NaN
         \<longrightarrow> coercesTo Tasks r i ''MaxConcurrent'' (JNum (Fin 1)))
   \<and> (\<forall>r i. \<not> truthy (js_get r ''RequestedTaskIDs'') \<and> js_typeof (js_get r ''RequestedTaskIDs'') \<noteq> ''string''
         \<longrightarrow> coercesTo Clients r i ''RequestedTaskIDs'' (JArr []))
   \<and> (\<forall>r i. \<not> truthy (js_get r ''PreferredPhases'') \<and> js_typeof (js_get r ''PreferredPhases'') \<noteq> ''string''
         \<longrightarrow> coercesTo Clients r i ''PreferredPhases'' (JArr []))
   \<and> (\<forall>r i. \<not> truthy (js_get r ''Skills'') \<and> js_typeof (js_get r ''Skills'') \<noteq> ''string''
         \<longrightarrow> coercesTo Workers r i ''Skills'' (JArr []))
   \<and> (\<forall>r i. \<not> truthy (js_get r ''AvailableSlots'') \<and> js_typeof (js_get r ''AvailableSlots'') \<noteq> ''string''
         \<longrightarrow> coercesTo Workers r i ''AvailableSlots'' (JArr []))
   \<and> (\<forall>r i. \<not> truthy (js_get r ''RequiredSkills'') \<and> js_typeof (js_get r ''RequiredSkills'') \<noteq> ''string''
         \<longrightarrow> coercesTo Tasks r i ''RequiredSkills'' (JArr []))
   \<and> (\<forall>r i. \<not> truthy (js_get r ''PreferredPhases'') \<and> js_typeof (js_get r ''PreferredPhases'') \<noteq> ''string''
         \<longrightarrow> coercesTo Tasks r i ''PreferredPhases'' (JArr []))
   \<and> (\<forall>r i. \<not> truthy (js_get r ''Dependencies'') \<and> js_typeof (js_get r ''Dependencies'') \<noteq> ''string''
         \<longrightarrow> coercesTo Tasks r i ''Dependencies'' (JArr []))
   \<and> (\<forall>r i. truthy (js_get r ''RequestedTaskIDs'') \<and> js_typeof (js_get r ''RequestedTaskIDs'') \<noteq> ''string''
         \<longrightarrow> coercesTo Clients r i ''RequestedTaskIDs'' (js_get r ''RequestedTaskIDs''))
   \<and> (\<forall>r i. truthy (js_get r ''PreferredPhases'') \<and> js_typeof (js_get r ''PreferredPhases'') \<noteq> ''string''
         \<longrightarrow> coercesTo Clients r i ''PreferredPhases'' (js_get r ''PreferredPhases''))
   \<and> (\<forall>r i. truthy (js_get r ''Skills'') \<and> js_typeof (js_get r ''Skills'') \<noteq> ''string''
         \<longrightarrow> coercesTo Workers r i ''Skills'' (js_get r ''Skills''))
   \<and> (\<forall>r i. truthy (js_get r ''AvailableSlots'') \<and> js_typeof (js_get r ''AvailableSlots'') \<noteq> ''string''
         \<longrightarrow> coercesTo Workers r i ''AvailableSlots'' (js_get r ''AvailableSlots''))
   \<and> (\<forall>r i. truthy (js_get r ''RequiredSkills'') \<and> js_typeof (js_get r ''RequiredSkills'') \<noteq> ''string''
         \<longrightarrow> coercesTo Tasks r i ''RequiredSkills'' (js_get r ''RequiredSkills''))
   \<and> (\<forall>r i. truthy (js_get r ''PreferredPhases'') \<and> js_typeof (js_get r ''PreferredPhases'') \<noteq> ''string''
         \<longrightarrow> coercesTo Tasks r i ''PreferredPhases'' (js_get r ''PreferredPhases''))
   \<and> (\<forall>r i. truthy (js_get r ''Dependencies'') \<and> js_typeof (js_get r ''Dependencies'') \<noteq> ''string''
         \<longrightarrow> coercesTo Tasks r i ''Dependencies'' (js_get r ''Dependencies''))"
proof -
  have a: "\<exists>records. processData rawData entity = Inr records
        \<and> length records = length rawData
        \<and> (\<forall>n < length rawData. processRow entity (rawData ! n) n = Inr (records ! n))"
  proof -
    obtain records where r: "processRows entity 0 rawData = Inr records"
        "length records = length rawData"
      using processRows_returns by blast
    have "processRow entity (rawData ! n) n = Inr (records ! n)" if "n < length rawData" for n
      using processRows_nth [OF r(1) that] by simp
    with r show ?thesis
      by (auto simp: processData_def)
  qed
  have n: "parseInt v = NaN \<Longrightarrow> intOr v d = JNum (Fin d)"
    "parseFloat v = NaN \<Longrightarrow> floatOr v d = JNum (Fin d)" for v d
    by (simp_all add: intOr_NaN floatOr_NaN)
  have l: "(case v of JStr s \<Rightarrow> f s | _ \<Rightarrow> js_or v (JArr [])) = JArr []"
    if "\<not> truthy v \<and> js_typeof v \<noteq> ''string''" for v and f :: "string \<Rightarrow> jsval"
    using that by (cases v) (simp_all add: js_or_def)
  have k: "(case v of JStr s \<Rightarrow> f s | _ \<Rightarrow> js_or v (JArr [])) = v"
    if "truthy v \<and> js_typeof v \<noteq> ''string''" for v and f :: "string \<Rightarrow> jsval"
    using that by (cases v) (simp_all add: js_or_def)
  show ?thesis
  proof (intro conjI allI impI a)
    fix r i
    assume "parseInt (js_get r ''PriorityLevel'') = NaN"
    then show "coercesTo Clients r i ''PriorityLevel'' (JNum (Fin 1))"
      using coerced_numeric(1) [of r i] by (simp add: n)
  next
    fix r i
    assume "parseFloat (js_get r ''MaxBudget'') = NaN"
    then show "coercesTo Clients r i ''MaxBudget'' (JNum (Fin 0))"
      using coerced_numeric(2) [of r i] by (simp add: n)
  next
    fix r i
    assume "parseInt (js_get r ''MaxLoadPerPhase'') = NaN"
    then show "coercesTo Workers r i ''MaxLoadPerPhase'' (JNum (Fin 1))"
      using coerced_numeric(3) [of r i] by (simp add: n)
  next
    fix r i
    assume "parseFloat (js_get r ''HourlyRate'') = NaN"
    then show "coercesTo Workers r i ''HourlyRate'' (JNum (Fin 0))"
      using coerced_numeric(4) [of r i] by (simp add: n)
  next
    fix r i
    assume "parseInt (js_get r ''Duration'') = NaN"
    then show "coercesTo Tasks r i ''Duration'' (JNum (Fin 1))"
      using coerced_numeric(5) [of r i] by (simp add: n)
  next
    fix r i
    assume "parseInt (js_get r ''PriorityLevel'') = NaN"
    then show "coercesTo Tasks r i ''PriorityLevel'' (JNum (Fin 1))"
      using coerced_numeric(6) [of r i] by (simp add: n)
  next
    fix r i
    assume "parseInt (js_get r ''MaxConcurrent'') = NaN"
    then show "coercesTo Tasks r i ''MaxConcurrent'' (JNum (Fin 1))"
      using coerced_numeric(7) [of r i] by (simp add: n)
  next
    fix r i
    assume "\<not> truthy (js_get r ''RequestedTaskIDs'') \<and> js_typeof (js_get r ''RequestedTaskIDs'') \<noteq> ''string''"
    then show "coercesTo Clients r i ''RequestedTaskIDs'' (JArr [])"
      using coerced_lists(1) [of r i] by (simp add: l)
  next
    fix r i
    assume "\<not> truthy (js_get r ''PreferredPhases'') \<and> js_typeof (js_get r ''PreferredPhases'') \<noteq> ''string''"
    then show "coercesTo Clients r i ''PreferredPhases'' (JArr [])"
      using coerced_lists(2) [of r i] by (simp add: l)
  next
    fix r i
    assume "\<not> truthy (js_get r ''Skills'') \<and> js_typeof (js_get r ''Skills'') \<noteq> ''string''"
    then show "coercesTo Workers r i ''Skills'' (JArr [])"
      using coerced_lists(3) [of r i] by (simp add: l)
  next
    fix r i
    assume "\<not> truthy (js_get r ''AvailableSlots'') \<and> js_typeof (js_get r ''AvailableSlots'') \<noteq> ''string''"
    then show "coercesTo Workers r i ''AvailableSlots'' (JArr [])"
      using coerced_lists(4) [of r i] by (simp add: l)
  next
    fix r i
    assume "\<not> truthy (js_get r ''RequiredSkills'') \<and> js_typeof (js_get r ''RequiredSkills'') \<noteq> ''string''"
    then show "coercesTo Tasks r i ''RequiredSkills'' (JArr [])"
      using coerced_lists(5) [of r i] by (simp add: l)
  next
    fix r i
    assume "\<not> truthy (js_get r ''PreferredPhases'') \<and> js_typeof (js_get r ''PreferredPhases'') \<noteq> ''string''"
    then show "coercesTo Tasks r i ''PreferredPhases'' (JArr [])"
      using coerced_lists(6) [of r i] by (simp add: l)
  next
    fix r i
    assume "\<not> truthy (js_get r ''Dependencies'') \<and> js_typeof (js_get r ''Dependencies'') \<noteq> ''string''"
    then show "coercesTo Tasks r i ''Dependencies'' (JArr [])"
      using coerced_lists(7) [of r i] by (simp add: l)
  next
    fix r i
    assume "truthy (js_get r ''RequestedTaskIDs'') \<and> js_typeof (js_get r ''RequestedTaskIDs'') \<noteq> ''string''"
    then show "coercesTo Clients r i ''RequestedTaskIDs'' (js_get r ''RequestedTaskIDs'')"
      using coerced_lists(1) [of r i] by (simp add: k)
  next
    fix r i
    assume "truthy (js_get r ''PreferredPhases'') \<and> js_typeof (js_get r ''PreferredPhases'') \<noteq> ''string''"
    then show "coercesTo Clients r i ''PreferredPhases'' (js_get r ''PreferredPhases'')"
      using coerced_lists(2) [of r i] by (simp add: k)
  next
    fix r i
    assume "truthy (js_get r ''Skills'') \<and> js_typeof (js_get r ''Skills'') \<noteq> ''string''"
    then show "coercesTo Workers r i ''Skills'' (js_get r ''Skills'')"
      using coerced_lists(3) [of r i] by (simp add: k)
  next
    fix r i
    assume "truthy (js_get r ''AvailableSlots'') \<and> js_typeof (js_get r ''AvailableSlots'') \<noteq> ''string''"
    then show "coercesTo Workers r i ''AvailableSlots'' (js_get r ''AvailableSlots'')"
      using coerced_lists(4) [of r i] by (simp add: k)
  next
    fix r i
    assume "truthy (js_get r ''RequiredSkills'') \<and> js_typeof (js_get r ''RequiredSkills'') \<noteq> ''string''"
    then show "coercesTo Tasks r i ''RequiredSkills'' (js_get r ''RequiredSkills'')"
      using coerced_lists(5) [of r i] by (simp add: k)
  next
    fix r i
    assume "truthy (js_get r ''PreferredPhases'') \<and> js_typeof (js_get r ''PreferredPhases'') \<noteq> ''string''"
    then show "coercesTo Tasks r i ''PreferredPhases'' (js_get r ''PreferredPhases'')"
      using coerced_lists(6) [of r i] by (simp add: k)
  next
    fix r i
    assume "truthy (js_get r ''Dependencies'') \<and> js_typeof (js_get r ''Dependencies'') \<noteq> ''string''"
    then show "coercesTo Tasks r i ''Dependencies'' (js_get r ''Dependencies'')"
      using coerced_lists(7) [of r i] by (simp add: k)
  qed
qed

text \<open>
  The same for three rows of unusable cells, for the row whose numeric cells all fail to
  parse and whose list cells are missing, and for the row whose list cells are numbers.
\<close>

theorem processData_returns_with_defaults_witness:
  "(\<exists>records. processData unusableRows Tasks = Inr records
        \<and> length records = 3
        \<and> processRow Tasks (unusableRows ! 2) 2 = Inr (records ! 2))
   \<and> parseInt (js_get malformedRow ''PriorityLevel'') = NaN
   \<and> coercesTo Clients malformedRow 0 ''PriorityLevel'' (JNum (Fin 1))
   \<and> parseFloat (js_get malformedRow ''MaxBudget'') = NaN
   \<and> coercesTo Clients malformedRow 0 ''MaxBudget'' (JNum (Fin 0))
   \<and> parseInt (js_get malformedRow ''MaxLoadPerPhase'') = NaN
   \<and> coercesTo Workers malformedRow 0 ''MaxLoadPerPhase'' (JNum (Fin 1))
   \<and> parseFloat (js_get malformedRow ''HourlyRate'') = NaN
   \<and> coercesTo Workers malformedRow 0 ''HourlyRate'' (JNum (Fin 0))
   \<and> parseInt (js_get malformedRow ''Duration'') = NaN
   \<and> coercesTo Tasks malformedRow 0 ''Duration'' (JNum (Fin 1))
   \<and> parseInt (js_get malformedRow ''PriorityLevel'') = NaN
   \<and> coercesTo Tasks malformedRow 0 ''PriorityLevel'' (JNum (Fin 1))
   \<and> parseInt (js_get malformedRow ''MaxConcurrent'') = NaN
   \<and> coercesTo Tasks malformedRow 0 ''MaxConcurrent'' (JNum (Fin 1))
   \<and> coercesTo Clients malformedRow 0 ''RequestedTaskIDs'' (JArr [])
   \<and> coercesTo Clients malformedRow 0 ''PreferredPhases'' (JArr [])
   \<and> coercesTo Workers malformedRow 0 ''Skills'' (JArr [])
   \<and> coercesTo Workers malformedRow 0 ''AvailableSlots'' (JArr [])
   \<and> coercesTo Tasks malformedRow 0 ''RequiredSkills'' (JArr [])
   \<and> coercesTo Tasks malformedRow 0 ''PreferredPhases'' (JArr [])
   \<and> coercesTo Tasks malformedRow 0 ''Dependencies'' (JArr [])
   \<and> coercesTo Clients numberListRow 0 ''RequestedTaskIDs'' (JNum (Fin 7))
   \<and> coercesTo Clients numberListRow 0 ''PreferredPhases'' (JNum (Fin 7))
   \<and> coercesTo Workers numberListRow 0 ''Skills'' (JNum (Fin 7))
   \<and> coercesTo Workers numberListRow 0 ''AvailableSlots'' (JNum (Fin 7))
   \<and> coercesTo Tasks numberListRow 0 ''RequiredSkills'' (JNum (Fin 7))
   \<and> coercesTo Tasks numberListRow 0 ''PreferredPhases'' (JNum (Fin 7))
   \<and> coercesTo Tasks numberListRow 0 ''Dependencies'' (JNum (Fin 7))"
proof -
  note t = processData_returns_with_defaults [where rawData = unusableRows and entity = Tasks]
  have hI:
    "parseInt (js_get malformedRow ''PriorityLevel'') = NaN"
    "parseFloat (js_get malformedRow ''MaxBudget'') = NaN"
    "parseInt (js_get malformedRow ''MaxLoadPerPhase'') = NaN"
    "parseFloat (js_get malformedRow ''HourlyRate'') = NaN"
    "parseInt (js_get malformedRow ''Duration'') = NaN"
    "parseInt (js_get malformedRow ''MaxConcurrent'') = NaN"
    by (simp_all add: js_get_Cons js_get_Nil parse_literals)
  have hL:
    "js_get malformedRow ''RequestedTaskIDs'' = JUndefined"
    "js_get malformedRow ''PreferredPhases'' = JUndefined"
    "js_get malformedRow ''Skills'' = JUndefined"
    "js_get malformedRow ''AvailableSlots'' = JUndefined"
    "js_get malformedRow ''RequiredSkills'' = JUndefined"
    "js_get malformedRow ''Dependencies'' = JUndefined"
    by (simp_all add: js_get_Cons js_get_Nil)
  have hN:
    "js_get numberListRow ''RequestedTaskIDs'' = JNum (Fin 7)"
    "js_get numberListRow ''PreferredPhases'' = JNum (Fin 7)"
    "js_get numberListRow ''Skills'' = JNum (Fin 7)"
    "js_get numberListRow ''AvailableSlots'' = JNum (Fin 7)"
    "js_get numberListRow ''RequiredSkills'' = JNum (Fin 7)"
    "js_get numberListRow ''Dependencies'' = JNum (Fin 7)"
    by (simp_all add: js_get_Cons)
  have fl: "\<not> truthy JUndefined \<and> js_typeof JUndefined \<noteq> ''string''"
    by simp
  have tr: "truthy (JNum (Fin 7)) \<and> js_typeof (JNum (Fin 7)) \<noteq> ''string''"
    by simp
  have a: "\<exists>records. processData unusableRows Tasks = Inr records
        \<and> length records = 3
        \<and> processRow Tasks (unusableRows ! 2) 2 = Inr (records ! 2)"
    using t [THEN conjunct1] by (auto simp: eval_nat_numeral)
  have "coercesTo Clients malformedRow 0 ''PriorityLevel'' (JNum (Fin 1))"
    using t [THEN conjunct2, THEN conjunct1, rule_format, of malformedRow 0] hI by simp
  moreover
  have "coercesTo Clients malformedRow 0 ''MaxBudget'' (JNum (Fin 0))"
    using t [THEN conjunct2, THEN conjunct2, THEN conjunct1, rule_format, of malformedRow 0] hI by simp
  moreover
  have "coercesTo Workers malformedRow 0 ''MaxLoadPerPhase'' (JNum (Fin 1))"
    using t [THEN conjunct2, THEN conjunct2, THEN conjunct2, THEN conjunct1, rule_format, of malformedRow 0] hI by simp
  moreover
  have "coercesTo Workers malformedRow 0 ''HourlyRate'' (JNum (Fin 0))"
    using t [THEN conjunct2, THEN conjunct2, THEN conjunct2, THEN conjunct2, THEN conjunct1, rule_format, of malformedRow 0] hI by simp
  moreover
  have "coercesTo Tasks malformedRow 0 ''Duration'' (JNum (Fin 1))"
    using t [THEN conjunct2, THEN conjunct2, THEN conjunct2, THEN conjunct2, THEN conjunct2, THEN conjunct1, rule_format, of malformedRow 0] hI by simp
  moreover
  have "coercesTo Tasks malformedRow 0 ''PriorityLevel'' (JNum (Fin 1))"
    using t [THEN conjunct2, THEN conjunct2, THEN conjunct2, THEN conjunct2, THEN conjunct2, THEN conjunct2, THEN conjunct1, rule_format, of malformedRow 0] hI by simp
  moreover
  have "coercesTo Tasks malformedRow 0 ''MaxConcurrent'' (JNum (Fin 1))"
    using t [THEN conjunct2, THEN conjunct2, THEN conjunct2, THEN conjunct2, THEN conjunct2, THEN conjunct2, THEN conjunct2, THEN conjunct1, rule_format, of malformedRow 0] hI by simp
  moreover
  have "coercesTo Clients malformedRow 0 ''RequestedTaskIDs'' (JArr [])"
    using t [THEN conjunct2, THEN conjunct2, THEN conjunct2, THEN conjunct2, THEN conjunct2, THEN conjunct2, THEN conjunct2, THEN conjunct2, THEN conjunct1, rule_format, of malformedRow 0] fl by (simp only: hL simp_thms)
  moreover
  have "coercesTo Clients malformedRow 0 ''PreferredPhases'' (JArr [])"
    using t [THEN conjunct2, THEN conjunct2, THEN conjunct2, THEN conjunct2, THEN conjunct2, THEN conjunct2, THEN conjunct2, THEN conjunct2, THEN conjunct2, THEN conjunct1, rule_format, of malformedRow 0] fl by (simp only: hL simp_thms)
  moreover
  have "coercesTo Workers malformedRow 0 ''Skills'' (JArr [])"
    using t [THEN conjunct2, THEN conjunct2, THEN conjunct2, THEN conjunct2, THEN conjunct2, THEN conjunct2, THEN conjunct2, THEN conjunct2, THEN conjunct2, THEN conjunct2, THEN conjunct1, rule_format, of malformedRow 0] fl by (simp only: hL simp_thms)
  moreover
  have "coercesTo Workers malformedRow 0 ''AvailableSlots'' (JArr [])"
    using t [THEN conjunct2, THEN conjunct2, THEN conjunct2, THEN conjunct2, THEN conjunct2, THEN conjunct2, THEN conjunct2, THEN conjunct2, THEN conjunct2, THEN conjunct2, THEN conjunct2, THEN conjunct1, rule_format, of malformedRow 0] fl by (simp only: hL simp_thms)
  moreover
  have "coercesTo Tasks malformedRow 0 ''RequiredSkills'' (JArr [])"
    using t [THEN conjunct2, THEN conjunct2, THEN conjunct2, THEN conjunct2, THEN conjunct2, THEN conjunct2, THEN conjunct2, THEN conjunct2, THEN conjunct2, THEN conjunct2, THEN conjunct2, THEN conjunct2, THEN conjunct1, rule_format, of malformedRow 0] fl by (simp only: hL simp_thms)
  moreover
  have "coercesTo Tasks malformedRow 0 ''PreferredPhases'' (JArr [])"
    using t [THEN conjunct2, THEN conjunct2, THEN conjunct2, THEN conjunct2, THEN conjunct2, THEN conjunct2, THEN conjunct2, THEN conjunct2, THEN conjunct2, THEN conjunct2, THEN conjunct2, THEN conjunct2, THEN conjunct2, THEN conjunct1, rule_format, of malformedRow 0] fl by (simp only: hL simp_thms)
  moreover
  have "coercesTo Tasks malformedRow 0 ''Dependencies'' (JArr [])"
    using t [THEN conjunct2, THEN conjunct2, THEN conjunct2, THEN conjunct2, THEN conjunct2, THEN conjunct2, THEN conjunct2, THEN conjunct2, THEN conjunct2, THEN conjunct2, THEN conjunct2, THEN conjunct2, THEN conjunct2, THEN conjunct2, THEN conjunct1, rule_format, of malformedRow 0] fl by (simp only: hL simp_thms)
  moreover
  have "coercesTo Clients numberListRow 0 ''RequestedTaskIDs'' (JNum (Fin 7))"
    using t [THEN conjunct2, THEN conjunct2, THEN conjunct2, THEN conjunct2, THEN conjunct2, THEN conjunct2, THEN conjunct2, THEN conjunct2, THEN conjunct2, THEN conjunct2, THEN conjunct2, THEN conjunct2, THEN conjunct2, THEN conjunct2, THEN conjunct2, THEN conjunct1, rule_format, of numberListRow 0] tr by (simp only: hN simp_thms)
  moreover
  have "coercesTo Clients numberListRow 0 ''PreferredPhases'' (JNum (Fin 7))"
    using t [THEN conjunct2, THEN conjunct2, THEN conjunct2, THEN conjunct2, THEN conjunct2, THEN conjunct2, THEN conjunct2, THEN conjunct2, THEN conjunct2, THEN conjunct2, THEN conjunct2, THEN conjunct2, THEN conjunct2, THEN conjunct2, THEN conjunct2, THEN conjunct2, THEN conjunct1, rule_format, of numberListRow 0] tr by (simp only: hN simp_thms)
  moreover
  have "coercesTo Workers numberListRow 0 ''Skills'' (JNum (Fin 7))"
    using t [THEN conjunct2, THEN conjunct2, THEN conjunct2, THEN conjunct2, THEN conjunct2, THEN conjunct2, THEN conjunct2, THEN conjunct2, THEN conjunct2, THEN conjunct2, THEN conjunct2, THEN conjunct2, THEN conjunct2, THEN conjunct2, THEN conjunct2, THEN conjunct2, THEN conjunct2, THEN conjunct1, rule_format, of numberListRow 0] tr by (simp only: hN simp_thms)
  moreover
  have "coercesTo Workers numberListRow 0 ''AvailableSlots'' (JNum (Fin 7))"
    using t [THEN conjunct2, THEN conjunct2, THEN conjunct2, THEN conjunct2, THEN conjunct2, THEN conjunct2, THEN conjunct2, THEN conjunct2, THEN conjunct2, THEN conjunct2, THEN conjunct2, THEN conjunct2, THEN conjunct2, THEN conjunct2, THEN conjunct2, THEN conjunct2, THEN conjunct2, THEN conjunct2, THEN conjunct1, rule_format, of numberListRow 0] tr by (simp only: hN simp_thms)
  moreover
  have "coercesTo Tasks numberListRow 0 ''RequiredSkills'' (JNum (Fin 7))"
    using t [THEN conjunct2, THEN conjunct2, THEN conjunct2, THEN conjunct2, THEN conjunct2, THEN conjunct2, THEN conjunct2, THEN conjunct2, THEN conjunct2, THEN conjunct2, THEN conjunct2, THEN conjunct2, THEN conjunct2, THEN conjunct2, THEN conjunct2, THEN conjunct2, THEN conjunct2, THEN conjunct2, THEN conjunct2, THEN conjunct1, rule_format, of numberListRow 0] tr by (simp only: hN simp_thms)
  moreover
  have "coercesTo Tasks numberListRow 0 ''PreferredPhases'' (JNum (Fin 7))"
    using t [THEN conjunct2, THEN conjunct2, THEN conjunct2, THEN conjunct2, THEN conjunct2, THEN conjunct2, THEN conjunct2, THEN conjunct2, THEN conjunct2, THEN conjunct2, THEN conjunct2, THEN conjunct2, THEN conjunct2, THEN conjunct2, THEN conjunct2, THEN conjunct2, THEN conjunct2, THEN conjunct2, THEN conjunct2, THEN conjunct2, THEN conjunct1, rule_format, of numberListRow 0] tr by (simp only: hN simp_thms)
  moreover
  have "coercesTo Tasks numberListRow 0 ''Dependencies'' (JNum (Fin 7))"
    using t [THEN conjunct2, THEN conjunct2, THEN conjunct2, THEN conjunct2, THEN conjunct2, THEN conjunct2, THEN conjunct2, THEN conjunct2, THEN conjunct2, THEN conjunct2, THEN conjunct2, THEN conjunct2, THEN conjunct2, THEN conjunct2, THEN conjunct2, THEN conjunct2, THEN conjunct2, THEN conjunct2, THEN conjunct2, THEN conjunct2, THEN conjunct2, rule_format, of numberListRow 0] tr by (simp only: hN simp_thms)
  ultimately show ?thesis
    using a hI by (intro conjI)
qed

section \<open>Record Coercer: the identity\<close>

text \<open>
  Claim C2 says that the record's \<open>id\<close> is the value of \<open>ClientID\<close>, \<open>WorkerID\<close> or
  \<open>TaskID\<close> when that is truthy, and \<open>temp-<index>\<close> otherwise. The key that
  \<open>processData\<close> reads is built from the name of the kind and starts with a small letter:
  \<open>clientID\<close>, \<open>workerID\<close>, \<open>taskID\<close>. The \<open>id\<close> is the value under that key when
  it is truthy and \<open>temp-<index>\<close> otherwise; a row with \<open>ClientID = "C1"\<close> at index 0
  gets \<open>temp-0\<close>, and a row without \<open>TaskID\<close> at index 2 gets \<open>temp-2\<close>. After
  \<open>mapHeaders\<close> no row has a column under the small-letter key, so in an import every
  record gets \<open>temp-<index>\<close>, whatever identities the file holds.
\<close>

theorem id_read_under_lowercase_key:
  "idKey Clients = ''clientID'' \<and> idKey Workers = ''workerID'' \<and> idKey Tasks = ''taskID''
   \<and> coercesTo Clients r i ''id'' (js_or (js_get r ''clientID'') (JStr (''temp-'' @ natDigits i)))
   \<and> coercesTo Workers r i ''id'' (js_or (js_get r ''workerID'') (JStr (''temp-'' @ natDigits i)))
   \<and> coercesTo Tasks r i ''id'' (js_or (js_get r ''taskID'') (JStr (''temp-'' @ natDigits i)))
   \<and> coercesTo Clients [(''ClientID'', JStr ''C1'')] 0 ''id'' (JStr ''temp-0'')
   \<and> coercesTo Tasks [(''TaskName'', JStr ''Build'')] 2 ''id'' (JStr ''temp-2'')
   \<and> (processData (mapHeaders rawData entity) entity = Inr records \<and> n < length records
        \<longrightarrow> js_get (records ! n) ''id'' = JStr (''temp-'' @ natDigits n))"
proof -
  have e1: "coercesTo Clients [(''ClientID'', JStr ''C1'')] 0 ''id'' (JStr ''temp-0'')"
    using coerced_id(1) [of "[(''ClientID'', JStr ''C1'')]" 0]
    by (simp add: js_get_Cons js_get_Nil js_or_def natDigits_literals)
  have e2: "coercesTo Tasks [(''TaskName'', JStr ''Build'')] 2 ''id'' (JStr ''temp-2'')"
    using coerced_id(3) [of "[(''TaskName'', JStr ''Build'')]" 2]
    by (simp add: js_get_Cons js_get_Nil js_or_def natDigits_literals)
  have p: "processData (mapHeaders rawData entity) entity = Inr records \<and> n < length records
        \<longrightarrow> js_get (records ! n) ''id'' = JStr (''temp-'' @ natDigits n)"
    using imported_ids_are_positional by blast
  show ?thesis
    by (intro conjI idKey_simps coerced_id e1 e2 p)
qed

text \<open>The same for the second of two client rows that both have a \<open>ClientID\<close>.\<close>

theorem id_read_under_lowercase_key_witness:
  "\<exists>records. processData (mapHeaders twoClients Clients) Clients = Inr records
     \<and> length records = 2
     \<and> js_get (records ! 1) ''id'' = JStr ''temp-1''"
proof -
  obtain records where r: "processData (mapHeaders twoClients Clients) Clients = Inr records"
      "length records = length (mapHeaders twoClients Clients)"
    using processData_returns by blast
  have l: "length records = 2"
    using r(2) by (simp add: mapHeaders_def)
  then have n: "1 < length records"
    by simp
  have "js_get (records ! 1) ''id'' = JStr (''temp-'' @ natDigits 1)"
    using id_read_under_lowercase_key
            [where rawData = twoClients and entity = Clients and records = records and n = 1]
          r(1) n
    by blast
  then have "js_get (records ! 1) ''id'' = JStr ''temp-1''"
    by (simp only: natDigits_literals append.simps)
  with r(1) l show ?thesis
    by blast
qed

section \<open>Record Coercer: the list fields\<close>

text \<open>
  Claim C5. For each list field (\<open>RequestedTaskIDs\<close>, \<open>Skills\<close>, \<open>PreferredPhases\<close>,
  \<open>AvailableSlots\<close>, \<open>RequiredSkills\<close>, \<open>Dependencies\<close>): a raw value that is a string
  is split at the commas and every piece is trimmed (and, for the two numeric lists, parsed
  with \<open>parseInt\<close>); a raw value that is already an array is kept as it is; an absent
  value gives the empty array. \<open>Skills = "go, rust,  python"\<close> is coerced to
  \<open>["go", "rust", "python"]\<close>, which joined with \<open>", "\<close> reads \<open>"go, rust, python"\<close>;
  and for every text, joining the pieces with \<open>", "\<close> and coercing again gives the same
  pieces.
\<close>

theorem list_fields_are_split_passed_or_emptied:
  "(js_get r ''RequestedTaskIDs'' = JStr s \<longrightarrow> coercesTo Clients r i ''RequestedTaskIDs'' (trimmedPieces s))
   \<and> (js_get r ''RequestedTaskIDs'' = JArr xs \<longrightarrow> coercesTo Clients r i ''RequestedTaskIDs'' (JArr xs))
   \<and> (js_get r ''RequestedTaskIDs'' = JUndefined \<longrightarrow> coercesTo Clients r i ''RequestedTaskIDs'' (JArr []))
   \<and> (js_get r ''PreferredPhases'' = JStr s \<longrightarrow> coercesTo Clients r i ''PreferredPhases'' (parsedPieces s))
   \<and> (js_get r ''PreferredPhases'' = JArr xs \<longrightarrow> coercesTo Clients r i ''PreferredPhases'' (JArr xs))
   \<and> (js_get r ''PreferredPhases'' = JUndefined \<longrightarrow> coercesTo Clients r i ''PreferredPhases'' (JArr []))
   \<and> (js_get r ''Skills'' = JStr s \<longrightarrow> coercesTo Workers r i ''Skills'' (trimmedPieces s))
   \<and> (js_get r ''Skills'' = JArr xs \<longrightarrow> coercesTo Workers r i ''Skills'' (JArr xs))
   \<and> (js_get r ''Skills'' = JUndefined \<longrightarrow> coercesTo Workers r i ''Skills'' (JArr []))
   \<and> (js_get r ''AvailableSlots'' = JStr s \<longrightarrow> coercesTo Workers r i ''AvailableSlots'' (parsedPieces s))
   \<and> (js_get r ''AvailableSlots'' = JArr xs \<longrightarrow> coercesTo Workers r i ''AvailableSlots'' (JArr xs))
   \<and> (js_get r ''AvailableSlots'' = JUndefined \<longrightarrow> coercesTo Workers r i ''AvailableSlots'' (JArr []))
   \<and> (js_get r ''RequiredSkills'' = JStr s \<longrightarrow> coercesTo Tasks r i ''RequiredSkills'' (trimmedPieces s))
   \<and> (js_get r ''RequiredSkills'' = JArr xs \<longrightarrow> coercesTo Tasks r i ''RequiredSkills'' (JArr xs))
   \<and> (js_get r ''RequiredSkills'' = JUndefined \<longrightarrow> coercesTo Tasks r i ''RequiredSkills'' (JArr []))
   \<and> (js_get r ''PreferredPhases'' = JStr s \<longrightarrow> coercesTo Tasks r i ''PreferredPhases'' (parsedPieces s))
   \<and> (js_get r ''PreferredPhases'' = JArr xs \<longrightarrow> coercesTo Tasks r i ''PreferredPhases'' (JArr xs))
   \<and> (js_get r ''PreferredPhases'' = JUndefined \<longrightarrow> coercesTo Tasks r i ''PreferredPhases'' (JArr []))
   \<and> (js_get r ''Dependencies'' = JStr s \<longrightarrow> coercesTo Tasks r i ''Dependencies'' (trimmedPieces s))
   \<and> (js_get r ''Dependencies'' = JArr xs \<longrightarrow> coercesTo Tasks r i ''Dependencies'' (JArr xs))
   \<and> (js_get r ''Dependencies'' = JUndefined \<longrightarrow> coercesTo Tasks r i ''Dependencies'' (JArr []))
   \<and> coercesTo Workers [(''Skills'', JStr ''go, rust,  python'')] i ''Skills''
         (JArr [JStr ''go'', JStr ''rust'', JStr ''python''])
   \<and> join '', '' [''go'', ''rust'', ''python''] = ''go, rust, python''
   \<and> map trim (split_on CHR '','' (join '', '' (map trim (split_on CHR '','' s))))
       = map trim (split_on CHR '','' s)"
proof -
  note g = coerced_lists [of r i]
  have pieces: "trim ''go'' = ''go''" "trim '' rust'' = ''rust''" "trim ''  python'' = ''python''"
    by code_simp+
  have e: "coercesTo Workers [(''Skills'', JStr ''go, rust,  python'')] i ''Skills''
         (JArr [JStr ''go'', JStr ''rust'', JStr ''python''])"
    using coerced_lists(3) [of "[(''Skills'', JStr ''go, rust,  python'')]" i]
    by (simp add: js_get_Cons pieces)
  have j: "join '', '' [''go'', ''rust'', ''python''] = ''go, rust, python''"
    by simp
  show ?thesis
    using g by (intro conjI impI e j rejoin_roundtrip) (simp_all add: js_or_def)
qed

text \<open>The same at a row of texts, a row of arrays and the empty row.\<close>

theorem list_fields_are_split_passed_or_emptied_witness:
  "js_get textListRow ''RequestedTaskIDs'' = JStr ''1, 2''
   \<and> coercesTo Clients textListRow 0 ''RequestedTaskIDs'' (trimmedPieces ''1, 2'')
   \<and> js_get textListRow ''PreferredPhases'' = JStr ''1, 2''
   \<and> coercesTo Clients textListRow 0 ''PreferredPhases'' (parsedPieces ''1, 2'')
   \<and> js_get textListRow ''Skills'' = JStr ''1, 2''
   \<and> coercesTo Workers textListRow 0 ''Skills'' (trimmedPieces ''1, 2'')
   \<and> js_get textListRow ''AvailableSlots'' = JStr ''1, 2''
   \<and> coercesTo Workers textListRow 0 ''AvailableSlots'' (parsedPieces ''1, 2'')
   \<and> js_get textListRow ''RequiredSkills'' = JStr ''1, 2''
   \<and> coercesTo Tasks textListRow 0 ''RequiredSkills'' (trimmedPieces ''1, 2'')
   \<and> js_get textListRow ''PreferredPhases'' = JStr ''1, 2''
   \<and> coercesTo Tasks textListRow 0 ''PreferredPhases'' (parsedPieces ''1, 2'')
   \<and> js_get textListRow ''Dependencies'' = JStr ''1, 2''
   \<and> coercesTo Tasks textListRow 0 ''Dependencies'' (trimmedPieces ''1, 2'')
   \<and> js_get arrayListRow ''RequestedTaskIDs'' = JArr [JStr ''x'']
   \<and> coercesTo Clients arrayListRow 0 ''RequestedTaskIDs'' (JArr [JStr ''x''])
   \<and> js_get arrayListRow ''PreferredPhases'' = JArr [JStr ''x'']
   \<and> coercesTo Clients arrayListRow 0 ''PreferredPhases'' (JArr [JStr ''x''])
   \<and> js_get arrayListRow ''Skills'' = JArr [JStr ''x'']
   \<and> coercesTo Workers arrayListRow 0 ''Skills'' (JArr [JStr ''x''])
   \<and> js_get arrayListRow ''AvailableSlots'' = JArr [JStr ''x'']
   \<and> coercesTo Workers arrayListRow 0 ''AvailableSlots'' (JArr [JStr ''x''])
   \<and> js_get arrayListRow ''RequiredSkills'' = JArr [JStr ''x'']
   \<and> coercesTo Tasks arrayListRow 0 ''RequiredSkills'' (JArr [JStr ''x''])
   \<and> js_get arrayListRow ''PreferredPhases'' = JArr [JStr ''x'']
   \<and> coercesTo Tasks arrayListRow 0 ''PreferredPhases'' (JArr [JStr ''x''])
   \<and> js_get arrayListRow ''Dependencies'' = JArr [JStr ''x'']
   \<and> coercesTo Tasks arrayListRow 0 ''Dependencies'' (JArr [JStr ''x''])
   \<and> js_get [] ''RequestedTaskIDs'' = JUndefined
   \<and> coercesTo Clients [] 0 ''RequestedTaskIDs'' (JArr [])
   \<and> js_get [] ''PreferredPhases'' = JUndefined
   \<and> coercesTo Clients [] 0 ''PreferredPhases'' (JArr [])
   \<and> js_get [] ''Skills'' = JUndefined
   \<and> coercesTo Workers [] 0 ''Skills'' (JArr [])
   \<and> js_get [] ''AvailableSlots'' = JUndefined
   \<and> coercesTo Workers [] 0 ''AvailableSlots'' (JArr [])
   \<and> js_get [] ''RequiredSkills'' = JUndefined
   \<and> coercesTo Tasks [] 0 ''RequiredSkills'' (JArr [])
   \<and> js_get [] ''PreferredPhases'' = JUndefined
   \<and> coercesTo Tasks [] 0 ''PreferredPhases'' (JArr [])
   \<and> js_get [] ''Dependencies'' = JUndefined
   \<and> coercesTo Tasks [] 0 ''Dependencies'' (JArr [])"
proof -
  have hS:
    "js_get textListRow ''RequestedTaskIDs'' = JStr ''1, 2''"
    "js_get textListRow ''PreferredPhases'' = JStr ''1, 2''"
    "js_get textListRow ''Skills'' = JStr ''1, 2''"
    "js_get textListRow ''AvailableSlots'' = JStr ''1, 2''"
    "js_get textListRow ''RequiredSkills'' = JStr ''1, 2''"
    "js_get textListRow ''Dependencies'' = JStr ''1, 2''"
    by (simp_all add: js_get_Cons)
  have hA:
    "js_get arrayListRow ''RequestedTaskIDs'' = JArr [JStr ''x'']"
    "js_get arrayListRow ''PreferredPhases'' = JArr [JStr ''x'']"
    "js_get arrayListRow ''Skills'' = JArr [JStr ''x'']"
    "js_get arrayListRow ''AvailableSlots'' = JArr [JStr ''x'']"
    "js_get arrayListRow ''RequiredSkills'' = JArr [JStr ''x'']"
    "js_get arrayListRow ''Dependencies'' = JArr [JStr ''x'']"
    by (simp_all add: js_get_Cons)
  have hU: "js_get [] k = JUndefined" for k
    by (rule js_get_Nil)
  show ?thesis
    using list_fields_are_split_passed_or_emptied
            [where r = textListRow and i = 0 and s = "''1, 2''" and xs = "[]"]
          list_fields_are_split_passed_or_emptied
            [where r = arrayListRow and i = 0 and s = "[]" and xs = "[JStr ''x'']"]
          list_fields_are_split_passed_or_emptied
            [where r = "[]" and i = 0 and s = "[]" and xs = "[]"]
    by (simp only: hS hA hU jsval.simps list.simps simp_thms)
qed

section \<open>Import Orchestrator\<close>

lemma handleUpload_missing:
  assumes "clients (files st) = None \<or> workers (files st) = None \<or> tasks (files st) = None"
  shows "handleUpload papa xlsx st =
     failWith ''Please upload all three required files: clients, workers, and tasks'' st"
  using assms by (auto simp: handleUpload_def split: option.splits)

text \<open>
  Claim C7. When one of the three files is absent, \<open>handleUpload\<close> ends with
  \<open>success = false\<close> and the single message that all three files are required, and no
  file has been handed to \<open>parseFile\<close>. When the three files are present and the three
  parses resolve, it ends with \<open>success = true\<close>, the three collections, each being the
  parsed rows passed through \<open>mapHeaders\<close> and then \<open>processData\<close>, and an empty list
  of warnings.
\<close>

theorem handleUpload_all_or_nothing:
  "(clients (files st) = None \<or> workers (files st) = None \<or> tasks (files st) = None
      \<longrightarrow> uploadResult (handleUpload papa xlsx st)
            = Some \<lparr>success = False, data = None,
                    errors = Some [''Please upload all three required files: clients, workers, and tasks''],
                    warnings = None\<rparr>
          \<and> status (handleUpload papa xlsx st) = UploadError
          \<and> parseCalls (handleUpload papa xlsx st) = parseCalls st
          \<and> published (handleUpload papa xlsx st) = published st)
   \<and> (clients (files st) = Some c \<and> workers (files st) = Some w \<and> tasks (files st) = Some t
       \<and> parseFile papa xlsx c = Resolved clientsRaw
       \<and> parseFile papa xlsx w = Resolved workersRaw
       \<and> parseFile papa xlsx t = Resolved tasksRaw
      \<longrightarrow> (\<exists>cs ws ts.
             processData (mapHeaders clientsRaw Clients) Clients = Inr cs
           \<and> processData (mapHeaders workersRaw Workers) Workers = Inr ws
           \<and> processData (mapHeaders tasksRaw Tasks) Tasks = Inr ts
           \<and> uploadResult (handleUpload papa xlsx st)
               = Some \<lparr>success = True,
                       data = Some \<lparr>clientRecords = cs, workerRecords = ws, taskRecords = ts\<rparr>,
                       errors = None, warnings = Some []\<rparr>
           \<and> status (handleUpload papa xlsx st) = UploadSuccess
           \<and> parseCalls (handleUpload papa xlsx st) = parseCalls st @ [c, w, t]))"
proof (rule conjI; rule impI)
  assume "clients (files st) = None \<or> workers (files st) = None \<or> tasks (files st) = None"
  then have "handleUpload papa xlsx st =
     failWith ''Please upload all three required files: clients, workers, and tasks'' st"
    by (rule handleUpload_missing)
  then show "uploadResult (handleUpload papa xlsx st)
            = Some \<lparr>success = False, data = None,
                    errors = Some [''Please upload all three required files: clients, workers, and tasks''],
                    warnings = None\<rparr>
          \<and> status (handleUpload papa xlsx st) = UploadError
          \<and> parseCalls (handleUpload papa xlsx st) = parseCalls st
          \<and> published (handleUpload papa xlsx st) = published st"
    by (simp add: failWith_def)
next
  assume a: "clients (files st) = Some c \<and> workers (files st) = Some w \<and> tasks (files st) = Some t
       \<and> parseFile papa xlsx c = Resolved clientsRaw
       \<and> parseFile papa xlsx w = Resolved workersRaw
       \<and> parseFile papa xlsx t = Resolved tasksRaw"
  obtain cs where cs: "processData (mapHeaders clientsRaw Clients) Clients = Inr cs"
    using processData_returns by blast
  obtain ws where ws: "processData (mapHeaders workersRaw Workers) Workers = Inr ws"
    using processData_returns by blast
  obtain ts where ts: "processData (mapHeaders tasksRaw Tasks) Tasks = Inr ts"
    using processData_returns by blast
  have n: "normalizeAndCoerce clientsRaw workersRaw tasksRaw
             = Inr \<lparr>clientRecords = cs, workerRecords = ws, taskRecords = ts\<rparr>"
    by (simp add: normalizeAndCoerce_def cs ws ts bindE_def)
  have "uploadResult (handleUpload papa xlsx st)
               = Some \<lparr>success = True,
                       data = Some \<lparr>clientRecords = cs, workerRecords = ws, taskRecords = ts\<rparr>,
                       errors = None, warnings = Some []\<rparr>
           \<and> status (handleUpload papa xlsx st) = UploadSuccess
           \<and> parseCalls (handleUpload papa xlsx st) = parseCalls st @ [c, w, t]"
    using a by (simp add: handleUpload_def promiseAll_def n)
  with cs ws ts show "\<exists>cs ws ts.
             processData (mapHeaders clientsRaw Clients) Clients = Inr cs
           \<and> processData (mapHeaders workersRaw Workers) Workers = Inr ws
           \<and> processData (mapHeaders tasksRaw Tasks) Tasks = Inr ts
           \<and> uploadResult (handleUpload papa xlsx st)
               = Some \<lparr>success = True,
                       data = Some \<lparr>clientRecords = cs, workerRecords = ws, taskRecords = ts\<rparr>,
                       errors = None, warnings = Some []\<rparr>
           \<and> status (handleUpload papa xlsx st) = UploadSuccess
           \<and> parseCalls (handleUpload papa xlsx st) = parseCalls st @ [c, w, t]"
    by blast
qed

text \<open>The same with two files chosen, and with three files that each parse to one row.\<close>

theorem handleUpload_all_or_nothing_witness:
  "workers (files twoFilesChosen) = None
   \<and> uploadResult (handleUpload onePapaRow noSheet twoFilesChosen)
       = Some \<lparr>success = False, data = None,
               errors = Some [''Please upload all three required files: clients, workers, and tasks''],
               warnings = None\<rparr>
   \<and> parseCalls (handleUpload onePapaRow noSheet twoFilesChosen) = []
   \<and> parseFile onePapaRow noSheet (csvFile ''c.csv'') = Resolved [[(''Notes'', JStr ''c.csv'')]]
   \<and> parseFile onePapaRow noSheet (csvFile ''w.csv'') = Resolved [[(''Notes'', JStr ''w.csv'')]]
   \<and> parseFile onePapaRow noSheet (csvFile ''t.csv'') = Resolved [[(''Notes'', JStr ''t.csv'')]]
   \<and> (\<exists>cs ws ts.
         processData (mapHeaders [[(''Notes'', JStr ''c.csv'')]] Clients) Clients = Inr cs
       \<and> processData (mapHeaders [[(''Notes'', JStr ''w.csv'')]] Workers) Workers = Inr ws
       \<and> processData (mapHeaders [[(''Notes'', JStr ''t.csv'')]] Tasks) Tasks = Inr ts
       \<and> uploadResult (handleUpload onePapaRow noSheet threeFilesChosen)
           = Some \<lparr>success = True,
                   data = Some \<lparr>clientRecords = cs, workerRecords = ws, taskRecords = ts\<rparr>,
                   errors = None, warnings = Some []\<rparr>
       \<and> parseCalls (handleUpload onePapaRow noSheet threeFilesChosen)
           = [csvFile ''c.csv'', csvFile ''w.csv'', csvFile ''t.csv''])"
proof -
  have h1: "clients (files twoFilesChosen) = None \<or> workers (files twoFilesChosen) = None
            \<or> tasks (files twoFilesChosen) = None"
    by simp
  have p: "parseFile onePapaRow noSheet (csvFile n) = Resolved [[(''Notes'', JStr n)]]" for n
    by (simp add: parseFile_def)
  have h2: "clients (files threeFilesChosen) = Some (csvFile ''c.csv'')
       \<and> workers (files threeFilesChosen) = Some (csvFile ''w.csv'')
       \<and> tasks (files threeFilesChosen) = Some (csvFile ''t.csv'')
       \<and> parseFile onePapaRow noSheet (csvFile ''c.csv'') = Resolved [[(''Notes'', JStr ''c.csv'')]]
       \<and> parseFile onePapaRow noSheet (csvFile ''w.csv'') = Resolved [[(''Notes'', JStr ''w.csv'')]]
       \<and> parseFile onePapaRow noSheet (csvFile ''t.csv'') = Resolved [[(''Notes'', JStr ''t.csv'')]]"
    by (simp add: p)
  note a = handleUpload_all_or_nothing
             [where st = twoFilesChosen and papa = onePapaRow and xlsx = noSheet,
              THEN conjunct1, rule_format, OF h1]
  note b = handleUpload_all_or_nothing
             [where st = threeFilesChosen and papa = onePapaRow and xlsx = noSheet,
              THEN conjunct2, rule_format, OF h2]
  from b obtain cs ws ts where c:
       "processData (mapHeaders [[(''Notes'', JStr ''c.csv'')]] Clients) Clients = Inr cs"
       "processData (mapHeaders [[(''Notes'', JStr ''w.csv'')]] Workers) Workers = Inr ws"
       "processData (mapHeaders [[(''Notes'', JStr ''t.csv'')]] Tasks) Tasks = Inr ts"
       "uploadResult (handleUpload onePapaRow noSheet threeFilesChosen)
           = Some \<lparr>success = True,
                   data = Some \<lparr>clientRecords = cs, workerRecords = ws, taskRecords = ts\<rparr>,
                   errors = None, warnings = Some []\<rparr>"
       "parseCalls (handleUpload onePapaRow noSheet threeFilesChosen)
           = parseCalls threeFilesChosen @ [csvFile ''c.csv'', csvFile ''w.csv'', csvFile ''t.csv'']"
    by blast
  have c5: "parseCalls (handleUpload onePapaRow noSheet threeFilesChosen)
           = [csvFile ''c.csv'', csvFile ''w.csv'', csvFile ''t.csv'']"
    using c(5) by simp
  have a3: "parseCalls (handleUpload onePapaRow noSheet twoFilesChosen) = []"
    using a by simp
  have w0: "workers (files twoFilesChosen) = None" by simp
  show ?thesis
    using w0 a a3 p c(1-4) c5 by blast
qed

section \<open>Query/Filter Facade\<close>

text \<open>
  Claim C8. For every collection and every search term the filter keeps exactly the records
  (in their order) of which at least one field value, turned into a string and lower-cased,
  contains the lower-cased search term as a substring. Filtering
  \<open>[{ClientName: "Acme"}, {ClientName: "Beta"}]\<close> with \<open>"ac"\<close> gives
  \<open>[{ClientName: "Acme"}]\<close>.
\<close>

theorem filter_keeps_exactly_the_matching_records:
  "filtered currentData searchTerm =
     filter (\<lambda>item. \<exists>value \<in> snd ` set item.
                sublist (toLowerCase searchTerm) (toLowerCase (js_String value)))
       currentData
   \<and> filtered [[(''ClientName'', JStr ''Acme'')], [(''ClientName'', JStr ''Beta'')]] ''ac''
       = [[(''ClientName'', JStr ''Acme'')]]"
proof -
  have ex: "filtered [[(''ClientName'', JStr ''Acme'')], [(''ClientName'', JStr ''Beta'')]] ''ac''
       = [[(''ClientName'', JStr ''Acme'')]]"
    by (simp add: filtered_def valueMatches_def lower_literals)
  show ?thesis
    by (simp add: ex)
      (simp add: filtered_def valueMatches_def list_ex_iff str_includes_sublist)
qed

section \<open>Record Coercer: the shape of a record\<close>

text \<open>
  Claim C3 says that every declared field of a coerced record is defined and of its
  declared type, the display name, the group label and the attributes payload included.
  \<open>processData\<close> assigns the identity, the list fields and the numeric fields only;
  every other field is copied from the row. The empty row, coerced as a client, has no
  \<open>ClientName\<close>; and a worker whose \<open>Skills\<close> cell is the number 5 keeps the number.
\<close>

theorem omitted_fields_stay_undefined:
  "processRow Clients [] 0
     = Inr [(''id'', JStr ''temp-0''), (''RequestedTaskIDs'', JArr []),
            (''PreferredPhases'', JArr []), (''PriorityLevel'', JNum (Fin 1)),
            (''MaxBudget'', JNum (Fin 0))]
   \<and> js_get [(''id'', JStr ''temp-0''), (''RequestedTaskIDs'', JArr []),
              (''PreferredPhases'', JArr []), (''PriorityLevel'', JNum (Fin 1)),
              (''MaxBudget'', JNum (Fin 0))] ''ClientName'' = JUndefined
   \<and> processRow Workers [(''Skills'', JNum (Fin 5))] 0
     = Inr [(''Skills'', JNum (Fin 5)), (''id'', JStr ''temp-0''), (''AvailableSlots'', JArr []),
            (''MaxLoadPerPhase'', JNum (Fin 1)), (''HourlyRate'', JNum (Fin 0))]"
  by (simp add: processRow.simps coerceStrings_eq coerceInts_eq bindE_def withId_def idKey_simps
      js_get_Cons js_get_Nil js_or_def natDigits_literals intOr_NaN floatOr_NaN parse_literals)

text \<open>
  Claim C3, amended. For every row and every kind the coercer returns a record in which
  \<open>id\<close> is defined and truthy, every scalar numeric field is a number other than
  \<open>NaN\<close>, and every list field is an array whenever the raw value is a string, an array
  or falsy (absent included); the identity field of the kind, the display name, the group
  label and the attributes payload are what the row has under these names, undefined when
  the row has none.
\<close>

theorem coerced_shape:
  "(\<exists>p. processRow Clients r i = Inr p
       \<and> truthy (js_get p ''id'')
       \<and> isNumber (js_get p ''PriorityLevel'')
       \<and> isNumber (js_get p ''MaxBudget'')
       \<and> (listable (js_get r ''RequestedTaskIDs'') \<longrightarrow> isArray (js_get p ''RequestedTaskIDs''))
       \<and> (listable (js_get r ''PreferredPhases'') \<longrightarrow> isArray (js_get p ''PreferredPhases''))
       \<and> js_get p ''ClientID'' = js_get r ''ClientID''
       \<and> js_get p ''ClientName'' = js_get r ''ClientName''
       \<and> js_get p ''ClientGroup'' = js_get r ''ClientGroup''
       \<and> js_get p ''AttributesJSON'' = js_get r ''AttributesJSON'')
   \<and> (\<exists>p. processRow Workers r i = Inr p
       \<and> truthy (js_get p ''id'')
       \<and> isNumber (js_get p ''MaxLoadPerPhase'')
       \<and> isNumber (js_get p ''HourlyRate'')
       \<and> (listable (js_get r ''Skills'') \<longrightarrow> isArray (js_get p ''Skills''))
       \<and> (listable (js_get r ''AvailableSlots'') \<longrightarrow> isArray (js_get p ''AvailableSlots''))
       \<and> js_get p ''WorkerID'' = js_get r ''WorkerID''
       \<and> js_get p ''WorkerName'' = js_get r ''WorkerName''
       \<and> js_get p ''WorkerGroup'' = js_get r ''WorkerGroup''
       \<and> js_get p ''AttributesJSON'' = js_get r ''AttributesJSON'')
   \<and> (\<exists>p. processRow Tasks r i = Inr p
       \<and> truthy (js_get p ''id'')
       \<and> isNumber (js_get p ''Duration'')
       \<and> isNumber (js_get p ''PriorityLevel'')
       \<and> isNumber (js_get p ''MaxConcurrent'')
       \<and> (listable (js_get r ''RequiredSkills'') \<longrightarrow> isArray (js_get p ''RequiredSkills''))
       \<and> (listable (js_get r ''PreferredPhases'') \<longrightarrow> isArray (js_get p ''PreferredPhases''))
       \<and> (listable (js_get r ''Dependencies'') \<longrightarrow> isArray (js_get p ''Dependencies''))
       \<and> js_get p ''TaskID'' = js_get r ''TaskID''
       \<and> js_get p ''TaskName'' = js_get r ''TaskName''
       \<and> js_get p ''AttributesJSON'' = js_get r ''AttributesJSON'')"
proof (intro conjI)
  obtain p where p: "processRow Clients r i = Inr p"
     "js_get p ''id'' = js_or (js_get r ''clientID'') (JStr (''temp-'' @ natDigits i))"
     "coerceStrings (js_get r ''RequestedTaskIDs'') = Inr (js_get p ''RequestedTaskIDs'')"
     "coerceInts (js_get r ''PreferredPhases'') = Inr (js_get p ''PreferredPhases'')"
     "js_get p ''PriorityLevel'' = intOr (js_get r ''PriorityLevel'') 1"
     "js_get p ''MaxBudget'' = floatOr (js_get r ''MaxBudget'') 0"
     "\<forall>k. k \<notin> {''id'', ''RequestedTaskIDs'', ''PreferredPhases'', ''PriorityLevel'',
                   ''MaxBudget''} \<longrightarrow> js_get p k = js_get r k"
    using processRow_Clients [of r i] by blast
  have "js_get p ''ClientID'' = js_get r ''ClientID''"
       "js_get p ''ClientName'' = js_get r ''ClientName''"
       "js_get p ''ClientGroup'' = js_get r ''ClientGroup''"
       "js_get p ''AttributesJSON'' = js_get r ''AttributesJSON''"
    using p(7) by simp_all
  then show "\<exists>p. processRow Clients r i = Inr p
       \<and> truthy (js_get p ''id'')
       \<and> isNumber (js_get p ''PriorityLevel'')
       \<and> isNumber (js_get p ''MaxBudget'')
       \<and> (listable (js_get r ''RequestedTaskIDs'') \<longrightarrow> isArray (js_get p ''RequestedTaskIDs''))
       \<and> (listable (js_get r ''PreferredPhases'') \<longrightarrow> isArray (js_get p ''PreferredPhases''))
       \<and> js_get p ''ClientID'' = js_get r ''ClientID''
       \<and> js_get p ''ClientName'' = js_get r ''ClientName''
       \<and> js_get p ''ClientGroup'' = js_get r ''ClientGroup''
       \<and> js_get p ''AttributesJSON'' = js_get r ''AttributesJSON''"
    using p(1) p(2) p(5) p(6) coerceStrings_isArray [OF _ p(3)] coerceInts_isArray [OF _ p(4)]
      intOr_isNumber floatOr_isNumber id_truthy
    by (intro exI [of _ p] conjI impI) simp_all
next
  obtain p where p: "processRow Workers r i = Inr p"
     "js_get p ''id'' = js_or (js_get r ''workerID'') (JStr (''temp-'' @ natDigits i))"
     "coerceStrings (js_get r ''Skills'') = Inr (js_get p ''Skills'')"
     "coerceInts (js_get r ''AvailableSlots'') = Inr (js_get p ''AvailableSlots'')"
     "js_get p ''MaxLoadPerPhase'' = intOr (js_get r ''MaxLoadPerPhase'') 1"
     "js_get p ''HourlyRate'' = floatOr (js_get r ''HourlyRate'') 0"
     "\<forall>k. k \<notin> {''id'', ''Skills'', ''AvailableSlots'', ''MaxLoadPerPhase'',
                   ''HourlyRate''} \<longrightarrow> js_get p k = js_get r k"
    using processRow_Workers [of r i] by blast
  have "js_get p ''WorkerID'' = js_get r ''WorkerID''"
       "js_get p ''WorkerName'' = js_get r ''WorkerName''"
       "js_get p ''WorkerGroup'' = js_get r ''WorkerGroup''"
       "js_get p ''AttributesJSON'' = js_get r ''AttributesJSON''"
    using p(7) by simp_all
  then show "\<exists>p. processRow Workers r i = Inr p
       \<and> truthy (js_get p ''id'')
       \<and> isNumber (js_get p ''MaxLoadPerPhase'')
       \<and> isNumber (js_get p ''HourlyRate'')
       \<and> (listable (js_get r ''Skills'') \<longrightarrow> isArray (js_get p ''Skills''))
       \<and> (listable (js_get r ''AvailableSlots'') \<longrightarrow> isArray (js_get p ''AvailableSlots''))
       \<and> js_get p ''WorkerID'' = js_get r ''WorkerID''
       \<and> js_get p ''WorkerName'' = js_get r ''WorkerName''
       \<and> js_get p ''WorkerGroup'' = js_get r ''WorkerGroup''
       \<and> js_get p ''AttributesJSON'' = js_get r ''AttributesJSON''"
    using p(1) p(2) p(5) p(6) coerceStrings_isArray [OF _ p(3)] coerceInts_isArray [OF _ p(4)]
      intOr_isNumber floatOr_isNumber id_truthy
    by (intro exI [of _ p] conjI impI) simp_all
next
  obtain p where p: "processRow Tasks r i = Inr p"
     "js_get p ''id'' = js_or (js_get r ''taskID'') (JStr (''temp-'' @ natDigits i))"
     "coerceStrings (js_get r ''RequiredSkills'') = Inr (js_get p ''RequiredSkills'')"
     "coerceInts (js_get r ''PreferredPhases'') = Inr (js_get p ''PreferredPhases'')"
     "coerceStrings (js_get r ''Dependencies'') = Inr (js_get p ''Dependencies'')"
     "js_get p ''Duration'' = intOr (js_get r ''Duration'') 1"
     "js_get p ''PriorityLevel'' = intOr (js_get r ''PriorityLevel'') 1"
     "js_get p ''MaxConcurrent'' = intOr (js_get r ''MaxConcurrent'') 1"
     "\<forall>k. k \<notin> {''id'', ''RequiredSkills'', ''PreferredPhases'', ''Dependencies'',
                   ''Duration'', ''PriorityLevel'', ''MaxConcurrent''}
              \<longrightarrow> js_get p k = js_get r k"
    using processRow_Tasks [of r i] by blast
  have "js_get p ''TaskID'' = js_get r ''TaskID''"
       "js_get p ''TaskName'' = js_get r ''TaskName''"
       "js_get p ''AttributesJSON'' = js_get r ''AttributesJSON''"
    using p(9) by simp_all
  then show "\<exists>p. processRow Tasks r i = Inr p
       \<and> truthy (js_get p ''id'')
       \<and> isNumber (js_get p ''Duration'')
       \<and> isNumber (js_get p ''PriorityLevel'')
       \<and> isNumber (js_get p ''MaxConcurrent'')
       \<and> (listable (js_get r ''RequiredSkills'') \<longrightarrow> isArray (js_get p ''RequiredSkills''))
       \<and> (listable (js_get r ''PreferredPhases'') \<longrightarrow> isArray (js_get p ''PreferredPhases''))
       \<and> (listable (js_get r ''Dependencies'') \<longrightarrow> isArray (js_get p ''Dependencies''))
       \<and> js_get p ''TaskID'' = js_get r ''TaskID''
       \<and> js_get p ''TaskName'' = js_get r ''TaskName''
       \<and> js_get p ''AttributesJSON'' = js_get r ''AttributesJSON''"
    using p(1) p(2) p(6) p(7) p(8) coerceStrings_isArray [OF _ p(3)]
      coerceInts_isArray [OF _ p(4)] coerceStrings_isArray [OF _ p(5)]
      intOr_isNumber floatOr_isNumber id_truthy
    by (intro exI [of _ p] conjI impI) simp_all
qed

text \<open>The same at a row whose list cells are texts and which has no name.\<close>

theorem coerced_shape_witness:
  "listable (js_get textListRow ''RequestedTaskIDs'')
   \<and> listable (js_get textListRow ''PreferredPhases'')
   \<and> listable (js_get textListRow ''Skills'')
   \<and> listable (js_get textListRow ''AvailableSlots'')
   \<and> listable (js_get textListRow ''RequiredSkills'')
   \<and> listable (js_get textListRow ''Dependencies'')
   \<and> (\<exists>p. processRow Clients textListRow 0 = Inr p
         \<and> truthy (js_get p ''id'')
         \<and> isNumber (js_get p ''PriorityLevel'')
         \<and> isArray (js_get p ''RequestedTaskIDs'')
         \<and> isArray (js_get p ''PreferredPhases'')
         \<and> js_get p ''ClientName'' = JUndefined)
   \<and> (\<exists>p. processRow Workers textListRow 0 = Inr p
         \<and> isNumber (js_get p ''HourlyRate'')
         \<and> isArray (js_get p ''Skills'')
         \<and> isArray (js_get p ''AvailableSlots''))
   \<and> (\<exists>p. processRow Tasks textListRow 0 = Inr p
         \<and> isNumber (js_get p ''Duration'')
         \<and> isArray (js_get p ''RequiredSkills'')
         \<and> isArray (js_get p ''PreferredPhases'')
         \<and> isArray (js_get p ''Dependencies''))"
proof -
  have h: "js_get textListRow ''RequestedTaskIDs'' = JStr ''1, 2''"
    "js_get textListRow ''PreferredPhases'' = JStr ''1, 2''"
    "js_get textListRow ''Skills'' = JStr ''1, 2''"
    "js_get textListRow ''AvailableSlots'' = JStr ''1, 2''"
    "js_get textListRow ''RequiredSkills'' = JStr ''1, 2''"
    "js_get textListRow ''Dependencies'' = JStr ''1, 2''"
    "js_get textListRow ''ClientName'' = JUndefined"
    by (simp_all add: js_get_Cons js_get_Nil)
  have l: "listable (JStr ''1, 2'')"
    by simp
  from coerced_shape [of textListRow 0]
  have "(\<exists>p. processRow Clients textListRow 0 = Inr p
         \<and> truthy (js_get p ''id'')
         \<and> isNumber (js_get p ''PriorityLevel'')
         \<and> isArray (js_get p ''RequestedTaskIDs'')
         \<and> isArray (js_get p ''PreferredPhases'')
         \<and> js_get p ''ClientName'' = JUndefined)
   \<and> (\<exists>p. processRow Workers textListRow 0 = Inr p
         \<and> isNumber (js_get p ''HourlyRate'')
         \<and> isArray (js_get p ''Skills'')
         \<and> isArray (js_get p ''AvailableSlots''))
   \<and> (\<exists>p. processRow Tasks textListRow 0 = Inr p
         \<and> isNumber (js_get p ''Duration'')
         \<and> isArray (js_get p ''RequiredSkills'')
         \<and> isArray (js_get p ''PreferredPhases'')
         \<and> isArray (js_get p ''Dependencies''))"
    unfolding h using l by blast
  then show ?thesis
    unfolding h using l by blast
qed

section \<open>Header Normalizer: matched headers\<close>

text \<open>
  Claim C1 says that a raw header whose trimmed, lower-cased form contains the label of a
  field, lower-cased and without white space, is mapped to that field, and that
  \<open>"Client ID"\<close>, \<open>"ClientID"\<close> and \<open>"  client id  "\<close> are all mapped to \<open>ClientID\<close>.
  The inner loop stops at the first label of the table that is contained: the header
  \<open>"clientname clientid"\<close> contains the label of \<open>ClientName\<close> and is mapped to
  \<open>ClientID\<close>. And the header is trimmed at its ends only, while the label loses its inner
  blank: \<open>"Client ID"\<close> and \<open>"  client id  "\<close> contain no label and stay as they are.
\<close>

theorem first_match_and_inner_space_counterexample:
  "labelMatches (normalized ''clientname clientid'') ''Client Name''
   \<and> mapHeaders [[(''clientname clientid'', JStr ''x'')]] Clients = [[(''ClientID'', JStr ''x'')]]
   \<and> mapHeaders [[(''Client ID'', JStr ''C1'')]] Clients = [[(''Client ID'', JStr ''C1'')]]
   \<and> mapHeaders [[(''  client id  '', JStr ''C1'')]] Clients
       = [[(''  client id  '', JStr ''C1'')]]"
  by (intro conjI mapHeaders_examples)

text \<open>
  Claim C1, amended. For every kind, every raw header of the first row and every entry of
  the kind's table: when the trimmed, lower-cased header contains the label of the entry
  (lower-cased, white space removed) and the label of no earlier entry, the header is mapped
  to the field of the entry; and in every row that has the column, its value is found under
  that field, provided no other column of the row is mapped to the same field. For clients,
  \<open>"ClientID"\<close> and \<open>"  clientid  "\<close> are mapped to \<open>ClientID\<close>.
\<close>

theorem first_declared_matching_label_wins:
  "(rawData \<noteq> [] \<and> h \<in> keysOf (hd rawData)
      \<and> headerMappings entity = earlier @ (label, target) # later
      \<and> labelMatches (normalized h) label
      \<and> (\<forall>(l, t) \<in> set earlier. \<not> labelMatches (normalized h) l)
     \<longrightarrow> mapsTo (buildHeaderMapping entity (hd rawData)) h target
       \<and> (\<forall>n < length rawData.
             h \<in> keysOf (rawData ! n)
             \<and> (\<forall>k \<in> keysOf (rawData ! n).
                   k \<noteq> h \<longrightarrow> \<not> mapsTo (buildHeaderMapping entity (hd rawData)) k target)
             \<longrightarrow> js_get (mapHeaders rawData entity ! n) target = js_get (rawData ! n) h))
   \<and> mapHeaders [[(''ClientID'', JStr ''C1'')]] Clients = [[(''ClientID'', JStr ''C1'')]]
   \<and> mapHeaders [[(''  clientid  '', JStr ''C1'')]] Clients = [[(''ClientID'', JStr ''C1'')]]"
  (is "(?H \<longrightarrow> ?M \<and> ?R) \<and> ?E")
proof -
  let ?hm = "buildHeaderMapping entity (hd rawData)"
  have m: ?M if a: ?H
  proof -
    have ft: "findTarget (normalized h) (headerMappings entity) = Some target"
      using a findTarget_first [of earlier "normalized h" label target later] by simp
    have "(label, target) \<in> set (headerMappings entity)"
      using a by simp
    then have ne: "target \<noteq> []"
      by (rule target_facts)
    have "readMapping ?hm h = Own target"
      using a ft ne by (simp add: readMapping_build)
    then show ?thesis
      using ne by simp
  qed
  have r: ?R if a: ?H
  proof (intro allI impI)
    fix n
    assume n: "n < length rawData"
      and r: "h \<in> keysOf (rawData ! n)
             \<and> (\<forall>k \<in> keysOf (rawData ! n). k \<noteq> h \<longrightarrow> \<not> mapsTo ?hm k target)"
    have "mapHeaders rawData entity ! n = transformRow ?hm (rawData ! n)"
      using a n by (simp add: mapHeaders_nonempty)
    moreover have "js_get (transformRow ?hm (rawData ! n)) target = js_get (rawData ! n) h"
      by (rule transformRow_carries) (use r m [OF a] in auto)
    ultimately show "js_get (mapHeaders rawData entity ! n) target = js_get (rawData ! n) h"
      by simp
  qed
  have e: ?E
    by (intro conjI mapHeaders_examples)
  have "?H \<longrightarrow> ?M \<and> ?R"
  proof (rule impI)
    assume a: ?H
    from m [OF a] r [OF a] show "?M \<and> ?R" by (rule conjI)
  qed
  then show ?thesis
    using e by (rule conjI)
qed

text \<open>
  The same for the header \<open>"clientname"\<close>, second entry of the clients' table, in a row
  with a second column.
\<close>

theorem first_declared_matching_label_wins_witness:
  "labelMatches (normalized ''clientname'') ''Client Name''
   \<and> \<not> labelMatches (normalized ''clientname'') ''Client ID''
   \<and> mapsTo (buildHeaderMapping Clients namedRow) ''clientname'' ''ClientName''
   \<and> js_get (mapHeaders [namedRow] Clients ! 0) ''ClientName'' = JStr ''Acme''"
proof -
  have H: "[namedRow] \<noteq> [] \<and> ''clientname'' \<in> keysOf (hd [namedRow])
      \<and> headerMappings Clients
          = [(''Client ID'', ''ClientID'')] @ (''Client Name'', ''ClientName'')
              # drop 2 (headerMappings Clients)
      \<and> labelMatches (normalized ''clientname'') ''Client Name''
      \<and> (\<forall>(l, t) \<in> set [(''Client ID'', ''ClientID'')].
            \<not> labelMatches (normalized ''clientname'') l)"
    by (simp add: headerMappings_def namedRow_facts)
  note t = first_declared_matching_label_wins
             [where rawData = "[namedRow]" and h = "''clientname''" and entity = Clients
                and earlier = "[(''Client ID'', ''ClientID'')]" and label = "''Client Name''"
                and target = "''ClientName''" and later = "drop 2 (headerMappings Clients)",
              THEN conjunct1, THEN mp, OF H]
  have m: "mapsTo (buildHeaderMapping Clients namedRow) ''clientname'' ''ClientName''"
    using t by simp
  have "js_get (mapHeaders [namedRow] Clients ! 0) ''ClientName'' = js_get ([namedRow] ! 0) ''clientname''"
    using t [THEN conjunct2, THEN spec, of 0] by (simp add: namedRow_facts)
  then have "js_get (mapHeaders [namedRow] Clients ! 0) ''ClientName'' = JStr ''Acme''"
    by (simp add: js_get_Cons)
  with m namedRow_facts(1,2) show ?thesis
    by simp
qed

section \<open>Header Normalizer: unmatched headers\<close>

text \<open>
  Claim C6 says that every raw header that matches no label is mapped to itself, so that
  the column survives under its name. The second pass of \<open>mapHeaders\<close> copies a column
  only when its new key is truthy: the empty header matches no label, is mapped to itself,
  the empty string, and its column is dropped from every row.
\<close>

theorem empty_header_is_dropped:
  "findTarget (normalized '''') (headerMappings Clients) = None
   \<and> mapHeaders [[('''', JStr ''x'')]] Clients = [[]]"
proof -
  have "findTarget (normalized '''') (headerMappings Clients) = None"
    by code_simp
  then show ?thesis
    using mapHeaders_examples(2) by simp
qed

text \<open>
  Claim C6, amended. For every kind and every raw header of the first row that is not
  empty, matches no label of the kind's table and is neither the name of a member of
  \<open>Object.prototype\<close> nor the string such a member turns into as a key: the header is
  mapped to itself, and every row that has the column keeps it under its name with its
  value. For clients, \<open>"Notes"\<close> is mapped to \<open>"Notes"\<close>.
\<close>

theorem unknown_headers_pass_through:
  "(rawData \<noteq> [] \<and> h \<in> keysOf (hd rawData)
      \<and> (\<forall>(l, t) \<in> set (headerMappings entity). \<not> labelMatches (normalized h) l)
      \<and> h \<noteq> [] \<and> h \<notin> fst ` set objectPrototype \<and> h \<notin> snd ` set objectPrototype
     \<longrightarrow> readMapping (buildHeaderMapping entity (hd rawData)) h = Own h
       \<and> (\<forall>n < length rawData.
             h \<in> keysOf (rawData ! n)
             \<longrightarrow> h \<in> keysOf (mapHeaders rawData entity ! n)
               \<and> js_get (mapHeaders rawData entity ! n) h = js_get (rawData ! n) h))
   \<and> mapHeaders [[(''Notes'', JStr ''x'')]] Clients = [[(''Notes'', JStr ''x'')]]"
  (is "(?H \<longrightarrow> ?M \<and> ?R) \<and> ?E")
proof -
  let ?hm = "buildHeaderMapping entity (hd rawData)"
  have own: ?M if a: ?H
  proof -
    have ft: "findTarget (normalized h) (headerMappings entity) = None"
      using a by (simp add: findTarget_None)
    have np: "map_of objectPrototype h = None"
      using a by (simp add: map_of_eq_None_iff)
    show ?thesis
      using a ft np by (simp add: readMapping_build)
  qed
  have others: "\<not> mapsTo ?hm k h" if a: ?H and "k \<noteq> h" for k
  proof
    assume m: "mapsTo ?hm k h"
    show False
    proof (cases "map_of ?hm k")
      case None
      then have "\<exists>s. map_of objectPrototype k = Some s \<and> s = h"
        using m by (auto simp: readMapping_def split: option.splits)
      then have "h \<in> snd ` set objectPrototype"
        by (auto dest: map_of_SomeD intro: rev_image_eqI)
      with a show False by simp
    next
      case (Some v)
      then have "v = h" using m by (simp add: readMapping_def)
      with Some that have "findTarget (normalized k) (headerMappings entity) = Some h"
        using map_of_build_cases [of entity "hd rawData" k v] by auto
      then obtain l where "(l, h) \<in> set (headerMappings entity)"
        using findTarget_Some by blast
      then have "labelMatches (normalized h) l" "(l, h) \<in> set (headerMappings entity)"
        by (simp_all add: target_facts)
      with a show False by auto
    qed
  qed
  have r: ?R if a: ?H
  proof (intro allI impI)
    fix n
    assume n: "n < length rawData" and r: "h \<in> keysOf (rawData ! n)"
    have eq: "mapHeaders rawData entity ! n = transformRow ?hm (rawData ! n)"
      using a n by (simp add: mapHeaders_nonempty)
    have mh: "mapsTo ?hm h h"
      using own [OF a] a by simp
    have f: "find (\<lambda>key. mapsTo ?hm key h) (rev (map fst (rawData ! n))) = Some h"
      by (rule find_unique) (use r mh others [OF a] in auto)
    then have "map_of (transformRow ?hm (rawData ! n)) h = Some (js_get (rawData ! n) h)"
      by (simp add: map_of_transformRow)
    then have "h \<in> keysOf (transformRow ?hm (rawData ! n))"
      "js_get (transformRow ?hm (rawData ! n)) h = js_get (rawData ! n) h"
      by (auto simp: js_get_def [of "transformRow ?hm (rawData ! n)"] dest: map_of_SomeD
          intro: rev_image_eqI)
    then show "h \<in> keysOf (mapHeaders rawData entity ! n)
               \<and> js_get (mapHeaders rawData entity ! n) h = js_get (rawData ! n) h"
      by (simp add: eq)
  qed
  have e: ?E
    by (rule mapHeaders_examples)
  have "?H \<longrightarrow> ?M \<and> ?R"
  proof (rule impI)
    assume a: ?H
    from own [OF a] r [OF a] show "?M \<and> ?R" by (rule conjI)
  qed
  then show ?thesis
    using e by (rule conjI)
qed

text \<open>The same for the header \<open>"Notes"\<close> beside a \<open>ClientID\<close> column.\<close>

theorem unknown_headers_pass_through_witness:
  "findTarget (normalized ''Notes'') (headerMappings Clients) = None
   \<and> readMapping (buildHeaderMapping Clients notedRow) ''Notes'' = Own ''Notes''
   \<and> ''Notes'' \<in> keysOf (mapHeaders [notedRow] Clients ! 0)
   \<and> js_get (mapHeaders [notedRow] Clients ! 0) ''Notes'' = JStr ''x''"
proof -
  have H: "[notedRow] \<noteq> [] \<and> ''Notes'' \<in> keysOf (hd [notedRow])
      \<and> (\<forall>(l, t) \<in> set (headerMappings Clients). \<not> labelMatches (normalized ''Notes'') l)
      \<and> ''Notes'' \<noteq> [] \<and> ''Notes'' \<notin> fst ` set objectPrototype
      \<and> ''Notes'' \<notin> snd ` set objectPrototype"
    using namedRow_facts(4) by (simp add: findTarget_None objectPrototype_def)
  note t = unknown_headers_pass_through
             [where rawData = "[notedRow]" and h = "''Notes''" and entity = Clients,
              THEN conjunct1, THEN mp, OF H]
  have "''Notes'' \<in> keysOf (mapHeaders [notedRow] Clients ! 0)
        \<and> js_get (mapHeaders [notedRow] Clients ! 0) ''Notes'' = js_get ([notedRow] ! 0) ''Notes''"
    using t [THEN conjunct2, THEN spec, of 0] by simp
  then have "''Notes'' \<in> keysOf (mapHeaders [notedRow] Clients ! 0)
        \<and> js_get (mapHeaders [notedRow] Clients ! 0) ''Notes'' = JStr ''x''"
    by (simp add: js_get_Cons)
  with t namedRow_facts(4) show ?thesis
    by simp
qed

end
